theory Spec2Isabelle
  imports Main
begin

section \<open>JavaScript values, objects and library calls\<close>

text \<open>
  Request bodies and stored documents are plain JavaScript objects. Their property
  values are the scalar JSON values plus \<open>undefined\<close>; array- and object-valued
  properties are not part of this development. An object is an association list read
  through \<open>getprop\<close>, where the first binding of a key is the one that counts and a
  missing key reads as \<open>undefined\<close>, as in JavaScript.

  A string is a list of UTF-16 code units, and a \<open>char\<close> is a code unit below 256:
  \<open>CHR 0xA0\<close> is the no-break space U+00A0. That is every string a request header
  can hold (Node decodes header bytes as Latin-1); a body or query string with a code
  unit from 256 on has no counterpart here.
\<close>

datatype jsval = JUndefined | JNull | JBool bool | JNum int | JStr string

type_synonym obj = "(string \<times> jsval) list"

definition getprop :: "obj \<Rightarrow> string \<Rightarrow> jsval" where
  "getprop ob k = (case map_of ob k of None \<Rightarrow> JUndefined | Some v \<Rightarrow> v)"

text \<open>Assignment \<open>ob[k] = v\<close>: an existing key keeps its place, a new key goes last.\<close>

fun set_prop :: "string \<Rightarrow> jsval \<Rightarrow> obj \<Rightarrow> obj" where
  "set_prop k v [] = [(k, v)]"
| "set_prop k v (kv # ob) = (if fst kv = k then (k, v) # ob else kv # set_prop k v ob)"

text \<open>
  \<open>assign target src\<close> is the object spread \<open>{ ...target, ...src }\<close> (and the
  \<open>$set\<close> of an update): every own property of \<open>src\<close> is written onto
  \<open>target\<close>.
\<close>

definition assign :: "obj \<Rightarrow> obj \<Rightarrow> obj" where
  "assign target src = fold (\<lambda>k. set_prop k (getprop src k)) (map fst src) target"

text \<open>A request header: absent (\<open>undefined\<close>) or a string.\<close>

definition header :: "string option \<Rightarrow> jsval" where
  "header h = (case h of None \<Rightarrow> JUndefined | Some s \<Rightarrow> JStr s)"

subsection \<open>String.prototype.trim\<close>

text \<open>
  The white space and line terminators of ECMAScript are TAB, LF, VT, FF, CR, the space,
  the no-break space U+00A0, U+FEFF, U+2028, U+2029 and the other space separators
  (U+1680, U+2000 to U+200A, U+202F, U+205F, U+3000). Those below 256 are the seven
  listed here; \<open>trim\<close> and \<open>parseInt\<close> skip exactly these.
\<close>

definition is_ws :: "char \<Rightarrow> bool" where
  "is_ws c =
     (c \<in> set [CHR 0x09, CHR 0x0A, CHR 0x0B, CHR 0x0C, CHR 0x0D, CHR 0x20, CHR 0xA0])"

definition trim :: "string \<Rightarrow> string" where
  "trim s = rev (dropWhile is_ws (rev (dropWhile is_ws s)))"

subsection \<open>parseInt\<close>

text \<open>
  \<open>parseInt(string)\<close> with no radix: leading white space is skipped, a sign is read,
  a prefix \<open>0x\<close> or \<open>0X\<close> selects radix 16, and the longest run of digits of the
  radix is the value; whatever follows is ignored. With no digit the result is NaN,
  here \<open>None\<close>. The rounding of values beyond \<open>2^53\<close> to a double is not modelled.
\<close>

definition digit_val :: "char \<Rightarrow> nat option" where
  "digit_val c =
     (let n = (of_char c :: nat) in
      if 48 \<le> n \<and> n \<le> 57 then Some (n - 48)
      else if 97 \<le> n \<and> n \<le> 122 then Some (n - 87)
      else if 65 \<le> n \<and> n \<le> 90 then Some (n - 55)
      else None)"

definition is_digit_of :: "nat \<Rightarrow> char \<Rightarrow> bool" where
  "is_digit_of radix c = (case digit_val c of None \<Rightarrow> False | Some d \<Rightarrow> d < radix)"

definition digits_value :: "nat \<Rightarrow> string \<Rightarrow> nat" where
  "digits_value radix ds =
     foldl (\<lambda>acc c. acc * radix + (case digit_val c of None \<Rightarrow> 0 | Some d \<Rightarrow> d)) 0 ds"

definition has_hex_prefix :: "string \<Rightarrow> bool" where
  "has_hex_prefix s = (take 2 s = ''0x'' \<or> take 2 s = ''0X'')"

definition parseInt :: "string \<Rightarrow> int option" where
  "parseInt input =
     (let s = dropWhile is_ws input;
          sign = (if take 1 s = ''-'' then - 1 else (1 :: int));
          s1 = (if take 1 s = ''-'' \<or> take 1 s = ''+'' then drop 1 s else s);
          radix = (if has_hex_prefix s1 then 16 else (10 :: nat));
          s2 = (if has_hex_prefix s1 then drop 2 s1 else s1);
          ds = takeWhile (is_digit_of radix) s2
      in if ds = [] then None else Some (sign * int (digits_value radix ds)))"

subsection \<open>Array.prototype.slice\<close>

text \<open>\<open>xs.slice(start)\<close>: a negative start counts from the end and is clamped at 0.\<close>

definition slice :: "int \<Rightarrow> 'a list \<Rightarrow> 'a list" where
  "slice start xs =
     (let len = int (length xs);
          k = (if start < 0 then max (len + start) 0 else min start len)
      in drop (nat k) xs)"

subsection \<open>dayjs(t).format("HH:mm:ss")\<close>

text \<open>
  The wall-clock time of the epoch millisecond \<open>t\<close> in the server's zone, whose offset
  from UTC is \<open>offset\<close> minutes.
\<close>

definition pad2 :: "int \<Rightarrow> string" where
  "pad2 n = [''0123456789'' ! nat (n div 10), ''0123456789'' ! nat (n mod 10)]"

definition format_HHmmss :: "int \<Rightarrow> int \<Rightarrow> string" where
  "format_HHmmss offset t =
     (let secs = (t + offset * 60000) div 1000
      in pad2 ((secs div 3600) mod 24) @ '':'' @ pad2 ((secs div 60) mod 60) @ '':'' @ pad2 (secs mod 60))"

subsection \<open>The libraries the handlers call\<close>

text \<open>
  The markup stripper (\<open>stripHtml(s).result\<close> of string-strip-html), the constructor
  of document ids (\<open>new ObjectId(id)\<close>, \<open>None\<close> when it throws) and the server's zone
  are parameters of every handler.
\<close>

record env =
  stripHtml :: "string \<Rightarrow> string"
  ObjectId :: "string \<Rightarrow> nat option"
  utcOffset :: int

text \<open>\<open>stripHtml(v).result.trim()\<close>; the library throws on an input that is not a string.\<close>

definition sanitize :: "env \<Rightarrow> jsval \<Rightarrow> string option" where
  "sanitize e v = (case v of JStr s \<Rightarrow> Some (trim (stripHtml e s)) | _ \<Rightarrow> None)"

text \<open>
  A stand-in for the stripper at concrete inputs: it deletes every tag, from \<open><\<close>
  to the next \<open>>\<close>.
\<close>

fun strip_tags :: "string \<Rightarrow> string" and skip_tag :: "string \<Rightarrow> string" where
  "strip_tags [] = []"
| "strip_tags (c # cs) = (if c = CHR ''<'' then skip_tag cs else c # strip_tags cs)"
| "skip_tag [] = []"
| "skip_tag (c # cs) = (if c = CHR ''>'' then strip_tags cs else skip_tag cs)"

text \<open>A stand-in for the id constructor: 24 hexadecimal digits, read as a number.\<close>

definition hex24 :: "string \<Rightarrow> nat option" where
  "hex24 s = (if length s = 24 \<and> list_all (is_digit_of 16) s then Some (digits_value 16 s) else None)"

definition server :: env where
  "server = \<lparr>stripHtml = strip_tags, ObjectId = hex24, utcOffset = - 180\<rparr>"

subsection \<open>Joi schemas\<close>

text \<open>
  \<open>Joi.string().required()\<close> accepts a non-empty string; \<open>Joi.required()\<close> accepts
  every value but \<open>undefined\<close>; \<open>Joi.valid(vs).required()\<close> accepts exactly the
  listed values; \<open>Joi.allow(vs)\<close> adds the listed values to what the base type
  accepts, and the base type \<open>any\<close> accepts everything, a missing key included.
  \<open>Joi.object\<close> reports every key the schema does not name.
\<close>

definition joi_string_required :: "jsval \<Rightarrow> bool" where
  "joi_string_required v = (case v of JStr s \<Rightarrow> s \<noteq> [] | _ \<Rightarrow> False)"

definition joi_required :: "jsval \<Rightarrow> bool" where
  "joi_required v = (v \<noteq> JUndefined)"

definition joi_valid_required :: "jsval list \<Rightarrow> jsval \<Rightarrow> bool" where
  "joi_valid_required vs v = (v \<in> set vs \<and> v \<noteq> JUndefined)"

definition joi_any :: "jsval \<Rightarrow> bool" where
  "joi_any v = True"

definition joi_allow :: "jsval list \<Rightarrow> jsval \<Rightarrow> bool" where
  "joi_allow vs v = (v \<in> set vs \<or> joi_any v)"

definition known_keys :: "string list \<Rightarrow> obj \<Rightarrow> bool" where
  "known_keys ks ob = list_all (\<lambda>k. k \<in> set ks) (map fst ob)"

section \<open>The document store\<close>

text \<open>
  The three collections, each in insertion order. Store operations are total here: a
  failing store (the handlers' 500 answers for it) is not modelled. The handlers run one
  at a time.
\<close>

record participant =
  name :: string
  lastStatus :: int

type_synonym collection = "(nat \<times> obj) list"

record db =
  participants :: "participant list"
  messages :: collection
  receitas :: collection

text \<open>\<open>insertOne\<close> gives the document an id no document of the collection has.\<close>

definition new_id :: "collection \<Rightarrow> nat" where
  "new_id c = Suc (fold max (map fst c) 0)"

definition insertOne :: "obj \<Rightarrow> collection \<Rightarrow> collection" where
  "insertOne doc c = c @ [(new_id c, doc)]"

definition findOne_name :: "string \<Rightarrow> participant list \<Rightarrow> participant option" where
  "findOne_name nm ps = find (\<lambda>p. name p = nm) ps"

text \<open>
  \<open>findOne({ name: user })\<close> with the raw header: an absent header is the query
  \<open>{ name: null }\<close>, which no participant matches, every participant having a name.
\<close>

definition findOne_header :: "string option \<Rightarrow> participant list \<Rightarrow> participant option" where
  "findOne_header h ps = (case h of None \<Rightarrow> None | Some u \<Rightarrow> findOne_name u ps)"

definition findOne_id :: "nat \<Rightarrow> collection \<Rightarrow> obj option" where
  "findOne_id i c = map_of c i"

fun updateOne_set :: "nat \<Rightarrow> obj \<Rightarrow> collection \<Rightarrow> collection" where
  "updateOne_set i upd [] = []"
| "updateOne_set i upd (d # c) =
     (if fst d = i then (i, assign (snd d) upd) # c else d # updateOne_set i upd c)"

fun deleteOne_id :: "nat \<Rightarrow> collection \<Rightarrow> collection" where
  "deleteOne_id i [] = []"
| "deleteOne_id i (d # c) = (if fst d = i then c else d # deleteOne_id i c)"

fun updateOne_lastStatus :: "string \<Rightarrow> int \<Rightarrow> participant list \<Rightarrow> participant list" where
  "updateOne_lastStatus nm t [] = []"
| "updateOne_lastStatus nm t (p # ps) =
     (if name p = nm then p\<lparr>lastStatus := t\<rparr> # ps else p # updateOne_lastStatus nm t ps)"

text \<open>What a handler answers: a bare status, a 200 with documents, or nothing at all
  (the handler threw outside its \<open>try\<close>, so its promise is rejected).\<close>

datatype response =
    Status nat
  | Messages collection
  | Participants "participant list"
  | Rejected

section \<open>The chat service (src/src/app.js)\<close>

subsection \<open>POST /participants\<close>

definition schemaParticipant :: "obj \<Rightarrow> bool" where
  "schemaParticipant body =
     (joi_string_required (getprop body ''name'') \<and> known_keys [''name''] body)"

text \<open>\<open>now1\<close> and \<open>now2\<close> are the handler's two readings of \<open>Date.now()\<close>.\<close>

definition post_participants :: "env \<Rightarrow> int \<Rightarrow> int \<Rightarrow> obj \<Rightarrow> db \<Rightarrow> response \<times> db" where
  "post_participants e now1 now2 body d =
     (if \<not> schemaParticipant body then (Status 422, d)
      else
        (case sanitize e (getprop body ''name'') of
           None \<Rightarrow> (Rejected, d)
         | Some nm \<Rightarrow>
             (case findOne_name nm (participants d) of
                Some p \<Rightarrow> (Status 409, d)
              | None \<Rightarrow>
                  (let d1 = d\<lparr>participants := participants d @ [\<lparr>name = nm, lastStatus = now1\<rparr>]\<rparr>;
                       message =
                         [(''from'', JStr nm),
                          (''to'', JStr ''Todos''),
                          (''text'', JStr ''entra na sala...''),
                          (''type'', JStr ''status''),
                          (''time'', JStr (format_HHmmss (utcOffset e) now2))]
                   in (Status 201, d1\<lparr>messages := insertOne message (messages d1)\<rparr>)))))"

subsection \<open>GET /participants\<close>

definition get_participants :: "db \<Rightarrow> response" where
  "get_participants d = Participants (participants d)"

subsection \<open>POST /messages\<close>

definition schemaMessage :: "obj \<Rightarrow> bool" where
  "schemaMessage ob =
     (joi_required (getprop ob ''from'') \<and>
      joi_string_required (getprop ob ''to'') \<and>
      joi_string_required (getprop ob ''text'') \<and>
      joi_valid_required [JStr ''message'', JStr ''private_message''] (getprop ob ''type'') \<and>
      known_keys [''from'', ''to'', ''text'', ''type''] ob)"

text \<open>
  \<open>sanitizedParams\<close>: a call of the stripper that throws does so inside the
  handler's \<open>try\<close>, hence \<open>None\<close> here and a 500 in the handler.
\<close>

definition sanitizedParams :: "env \<Rightarrow> string \<Rightarrow> obj \<Rightarrow> obj option" where
  "sanitizedParams e nm body =
     (case sanitize e (getprop body ''to'') of
        None \<Rightarrow> None
      | Some to' \<Rightarrow>
          (case sanitize e (getprop body ''text'') of
             None \<Rightarrow> None
           | Some text' \<Rightarrow>
               (case sanitize e (getprop body ''type'') of
                  None \<Rightarrow> None
                | Some type' \<Rightarrow>
                    Some [(''from'', JStr nm), (''to'', JStr to'),
                          (''text'', JStr text'), (''type'', JStr type')])))"

definition post_messages :: "env \<Rightarrow> int \<Rightarrow> string option \<Rightarrow> obj \<Rightarrow> db \<Rightarrow> response \<times> db" where
  "post_messages e now user body d =
     (case user of
        None \<Rightarrow> (Status 422, d)
      | Some u \<Rightarrow>
          (let nm = trim (stripHtml e u) in
           case findOne_name nm (participants d) of
             None \<Rightarrow> (Status 422, d)
           | Some p \<Rightarrow>
               if \<not> schemaMessage (assign [(''from'', JStr u)] body) then (Status 422, d)
               else
                 (case sanitizedParams e nm body of
                    None \<Rightarrow> (Status 500, d)
                  | Some params \<Rightarrow>
                      (let message = assign params [(''time'', JStr (format_HHmmss (utcOffset e) now))]
                       in (Status 201, d\<lparr>messages := insertOne message (messages d)\<rparr>)))))"

subsection \<open>GET /messages\<close>

text \<open>
  The query of the handler's \<open>find\<close>, with the value the handler puts for \<open>user\<close>.
  On scalar values the query's equality is equality of the values. The query string's
  \<open>limit\<close> is absent or a string; a repeated or bracketed parameter is not modelled.
\<close>

definition visible :: "jsval \<Rightarrow> obj \<Rightarrow> bool" where
  "visible user m =
     (getprop m ''type'' = JStr ''message'' \<or>
      getprop m ''to'' = JStr ''Todos'' \<or>
      (getprop m ''type'' = JStr ''private_message'' \<and>
       (getprop m ''to'' = user \<or> getprop m ''from'' = user)))"

definition find_visible :: "jsval \<Rightarrow> collection \<Rightarrow> collection" where
  "find_visible user c = filter (\<lambda>doc. visible user (snd doc)) c"

definition get_messages :: "env \<Rightarrow> string option \<Rightarrow> string option \<Rightarrow> db \<Rightarrow> response" where
  "get_messages e user limit d =
     (case user of
        None \<Rightarrow> Rejected
      | Some u \<Rightarrow>
          (let nm = trim (stripHtml e u) in
           case findOne_name nm (participants d) of
             None \<Rightarrow> Status 409
           | Some p \<Rightarrow>
               (let msgs = find_visible (JStr u) (messages d) in
                case limit of
                  None \<Rightarrow> Messages (rev msgs)
                | Some l \<Rightarrow>
                    (case parseInt l of
                       None \<Rightarrow> Status 422
                     | Some limitValue \<Rightarrow>
                         if limitValue \<le> 0 then Status 422
                         else Messages (rev (slice (- limitValue) msgs))))))"

subsection \<open>POST /status\<close>

definition post_status :: "env \<Rightarrow> int \<Rightarrow> string option \<Rightarrow> db \<Rightarrow> response \<times> db" where
  "post_status e now user d =
     (case user of
        None \<Rightarrow> (Status 404, d)
      | Some u \<Rightarrow>
          (let nm = trim (stripHtml e u) in
           case findOne_name nm (participants d) of
             None \<Rightarrow> (Status 404, d)
           | Some p \<Rightarrow>
               (Status 200, d\<lparr>participants := updateOne_lastStatus nm now (participants d)\<rparr>)))"

subsection \<open>The presence sweep\<close>

definition stale :: "int \<Rightarrow> participant \<Rightarrow> bool" where
  "stale now p = (lastStatus p < now - 10000)"

definition leave_message :: "env \<Rightarrow> int \<Rightarrow> participant \<Rightarrow> obj" where
  "leave_message e now p =
     [(''from'', JStr (name p)),
      (''to'', JStr ''Todos''),
      (''text'', JStr ''sai da sala...''),
      (''type'', JStr ''status''),
      (''time'', JStr (format_HHmmss (utcOffset e) now))]"

definition removeInactiveParticipants :: "env \<Rightarrow> int \<Rightarrow> db \<Rightarrow> db" where
  "removeInactiveParticipants e now d =
     (let snapshot = filter (stale now) (participants d) in
      if length snapshot \<le> 0 then d
      else
        (let d1 = d\<lparr>participants := filter (\<lambda>p. \<not> stale now p) (participants d)\<rparr>
         in d1\<lparr>messages := fold (\<lambda>p c. insertOne (leave_message e now p) c) snapshot (messages d1)\<rparr>))"

subsection \<open>DELETE /messages/:id\<close>

definition delete_messages :: "env \<Rightarrow> string option \<Rightarrow> string \<Rightarrow> db \<Rightarrow> response \<times> db" where
  "delete_messages e user ident d =
     (case user of
        None \<Rightarrow> (Rejected, d)
      | Some u \<Rightarrow>
          (let nm = trim (stripHtml e u) in
           case ObjectId e ident of
             None \<Rightarrow> (Status 500, d)
           | Some i \<Rightarrow>
               (case findOne_id i (messages d) of
                  None \<Rightarrow> (Status 404, d)
                | Some message \<Rightarrow>
                    if getprop message ''from'' \<noteq> JStr nm then (Status 401, d)
                    else (Status 200, d\<lparr>messages := deleteOne_id i (messages d)\<rparr>))))"

subsection \<open>PUT /messages/:id\<close>

definition put_messages :: "env \<Rightarrow> string option \<Rightarrow> string \<Rightarrow> obj \<Rightarrow> db \<Rightarrow> response \<times> db" where
  "put_messages e user ident body d =
     (case user of
        None \<Rightarrow> (Rejected, d)
      | Some u \<Rightarrow>
          (let nm = trim (stripHtml e u) in
           case findOne_name nm (participants d) of
             None \<Rightarrow> (Status 422, d)
           | Some p \<Rightarrow>
               if \<not> schemaMessage (assign [(''from'', JStr nm)] body) then (Status 422, d)
               else
                 (case sanitizedParams e nm body of
                    None \<Rightarrow> (Status 500, d)
                  | Some params \<Rightarrow>
                      (case ObjectId e ident of
                         None \<Rightarrow> (Status 500, d)
                       | Some i \<Rightarrow>
                           (case findOne_id i (messages d) of
                              None \<Rightarrow> (Status 404, d)
                            | Some message \<Rightarrow>
                                if getprop message ''from'' \<noteq> JStr u then (Status 401, d)
                                else (Status 200, d\<lparr>messages := updateOne_set i params (messages d)\<rparr>))))))"

section \<open>The earlier variant and the recipe catalogue (src/unnamed/part_000)\<close>

text \<open>
  The variant calls no stripper: names, headers and bodies are used as they arrive.
  Its error answers carry a text, which is left out of \<open>Status\<close>.
\<close>

subsection \<open>POST /participants\<close>

text \<open>The last case is not reached: the schema accepts a string only.\<close>

definition post_participants_part000 :: "env \<Rightarrow> int \<Rightarrow> int \<Rightarrow> obj \<Rightarrow> db \<Rightarrow> response \<times> db" where
  "post_participants_part000 e now1 now2 body d =
     (if \<not> schemaParticipant body then (Status 422, d)
      else
        (case getprop body ''name'' of
           JStr nm \<Rightarrow>
             (case findOne_name nm (participants d) of
                Some p \<Rightarrow> (Status 409, d)
              | None \<Rightarrow>
                  (let d1 = d\<lparr>participants := participants d @ [\<lparr>name = nm, lastStatus = now1\<rparr>]\<rparr>;
                       message =
                         [(''from'', JStr nm),
                          (''to'', JStr ''Todos''),
                          (''text'', JStr ''entra na sala...''),
                          (''type'', JStr ''status''),
                          (''time'', JStr (format_HHmmss (utcOffset e) now2))]
                   in (Status 201, d1\<lparr>messages := insertOne message (messages d1)\<rparr>)))
         | _ \<Rightarrow> (Status 422, d)))"

subsection \<open>POST /messages\<close>

definition schemaMessage_part000 :: "obj \<Rightarrow> bool" where
  "schemaMessage_part000 ob =
     (joi_string_required (getprop ob ''to'') \<and>
      joi_string_required (getprop ob ''text'') \<and>
      joi_allow [JStr ''message'', JStr ''private_message''] (getprop ob ''type'') \<and>
      joi_required (getprop ob ''from'') \<and>
      known_keys [''to'', ''text'', ''type'', ''from''] ob)"

text \<open>
  The validated object is \<open>{ ...req.body, from: user }\<close>; the stored one is
  \<open>{ from: user, ...req.body, time }\<close>.
\<close>

definition post_messages_part000 :: "env \<Rightarrow> int \<Rightarrow> string option \<Rightarrow> obj \<Rightarrow> db \<Rightarrow> response \<times> db" where
  "post_messages_part000 e now user body d =
     (case findOne_header user (participants d) of
        None \<Rightarrow> (Status 409, d)
      | Some p \<Rightarrow>
          if \<not> schemaMessage_part000 (set_prop ''from'' (header user) (assign [] body))
          then (Status 422, d)
          else
            (let message =
                   set_prop ''time'' (JStr (format_HHmmss (utcOffset e) now))
                     (assign [(''from'', header user)] body)
             in (Status 201, d\<lparr>messages := insertOne message (messages d)\<rparr>)))"

subsection \<open>GET /messages\<close>

text \<open>
  Here \<open>limit\<close> is \<open>parseInt(req.query.limit)\<close>, a number in every case: an absent
  query value is read as the string \<open>undefined\<close> and gives NaN. So the handler's tests
  \<open>limit === undefined\<close> and \<open>typeof limit !== "number"\<close> never hold, and NaN reaches
  \<open>slice(-limit)\<close>, which reads it as 0. After a 200 the handler runs on into a block
  left over from the recipe routes, which throws once the answer is out; the answer is
  what is modelled.
\<close>

definition get_messages_part000 :: "string option \<Rightarrow> string option \<Rightarrow> db \<Rightarrow> response" where
  "get_messages_part000 user query_limit d =
     (let limit = parseInt (case query_limit of None \<Rightarrow> ''undefined'' | Some l \<Rightarrow> l) in
      case findOne_header user (participants d) of
        None \<Rightarrow> Status 409
      | Some p \<Rightarrow>
          (let msgs = find_visible (header user) (messages d) in
           case limit of
             None \<Rightarrow> Messages (rev (slice 0 msgs))
           | Some k \<Rightarrow>
               if k \<le> 0 then Status 422
               else Messages (rev (slice (- k) msgs))))"

subsection \<open>DELETE /receitas/muitas/:filtroIngredientes\<close>

definition delete_receitas_muitas :: "string \<Rightarrow> db \<Rightarrow> response \<times> db" where
  "delete_receitas_muitas filtroIngredientes d =
     (Status 204,
      d\<lparr>receitas :=
          filter (\<lambda>doc. getprop (snd doc) ''ingredientes'' \<noteq> JStr filtroIngredientes) (receitas d)\<rparr>)"

section \<open>Reading an answer, and example states\<close>

text \<open>The documents of a 200 answer; an answer without documents has none.\<close>

definition returned :: "response \<Rightarrow> collection" where
  "returned r = (case r of Messages ms \<Rightarrow> ms | _ \<Rightarrow> [])"

definition empty_db :: db where
  "empty_db = \<lparr>participants = [], messages = [], receitas = []\<rparr>"

text \<open>Ana was last heard of at 0 ms, Bob at 15000 ms.\<close>

definition sweep_db :: db where
  "sweep_db =
     \<lparr>participants = [\<lparr>name = ''Ana'', lastStatus = 0\<rparr>, \<lparr>name = ''Bob'', lastStatus = 15000\<rparr>],
      messages = [], receitas = []\<rparr>"

text \<open>Ana has joined and nothing else has happened.\<close>

definition ana_room :: db where
  "ana_room =
     \<lparr>participants = [\<lparr>name = ''Ana'', lastStatus = 1000\<rparr>],
      messages =
        [(1, [(''from'', JStr ''Ana''), (''to'', JStr ''Todos''), (''text'', JStr ''entra na sala...''),
              (''type'', JStr ''status''), (''time'', JStr ''21:00:01'')])],
      receitas = []\<rparr>"

definition receitas_db :: db where
  "receitas_db =
     \<lparr>participants = [], messages = [],
      receitas =
        [(1, [(''titulo'', JStr ''omelete''), (''preparo'', JStr ''bater e fritar''),
              (''ingredientes'', JStr ''ovo'')]),
         (2, [(''titulo'', JStr ''bolo''), (''preparo'', JStr ''misturar e assar''),
              (''ingredientes'', JStr ''ovo, leite'')])]\<rparr>"

text \<open>Ana, a participant named Todos and Bob have joined; Ana has sent a private message to Todos.\<close>

definition todos_room :: db where
  "todos_room =
     \<lparr>participants =
        [\<lparr>name = ''Ana'', lastStatus = 1000\<rparr>,
         \<lparr>name = ''Todos'', lastStatus = 2000\<rparr>,
         \<lparr>name = ''Bob'', lastStatus = 3000\<rparr>],
      messages =
        [(1, [(''from'', JStr ''Ana''), (''to'', JStr ''Todos''), (''text'', JStr ''entra na sala...''),
              (''type'', JStr ''status''), (''time'', JStr ''21:00:01'')]),
         (2, [(''from'', JStr ''Todos''), (''to'', JStr ''Todos''), (''text'', JStr ''entra na sala...''),
              (''type'', JStr ''status''), (''time'', JStr ''21:00:02'')]),
         (3, [(''from'', JStr ''Bob''), (''to'', JStr ''Todos''), (''text'', JStr ''entra na sala...''),
              (''type'', JStr ''status''), (''time'', JStr ''21:00:03'')]),
         (4, [(''from'', JStr ''Ana''), (''to'', JStr ''Todos''), (''text'', JStr ''segredo''),
              (''type'', JStr ''private_message''), (''time'', JStr ''21:00:04'')])],
      receitas = []\<rparr>"

text \<open>Ana, Bob and Carla have joined; then a public message and three private ones.\<close>

definition chat_room :: db where
  "chat_room =
     \<lparr>participants =
        [\<lparr>name = ''Ana'', lastStatus = 1000\<rparr>,
         \<lparr>name = ''Bob'', lastStatus = 2000\<rparr>,
         \<lparr>name = ''Carla'', lastStatus = 3000\<rparr>],
      messages =
        [(1, [(''from'', JStr ''Ana''), (''to'', JStr ''Todos''), (''text'', JStr ''entra na sala...''),
              (''type'', JStr ''status''), (''time'', JStr ''21:00:01'')]),
         (2, [(''from'', JStr ''Bob''), (''to'', JStr ''Todos''), (''text'', JStr ''entra na sala...''),
              (''type'', JStr ''status''), (''time'', JStr ''21:00:02'')]),
         (3, [(''from'', JStr ''Carla''), (''to'', JStr ''Todos''), (''text'', JStr ''entra na sala...''),
              (''type'', JStr ''status''), (''time'', JStr ''21:00:03'')]),
         (4, [(''from'', JStr ''Ana''), (''to'', JStr ''Bob''), (''text'', JStr ''oi Bob''),
              (''type'', JStr ''message''), (''time'', JStr ''21:00:04'')]),
         (5, [(''from'', JStr ''Ana''), (''to'', JStr ''Carla''), (''text'', JStr ''segredo''),
              (''type'', JStr ''private_message''), (''time'', JStr ''21:00:05'')]),
         (6, [(''from'', JStr ''Bob''), (''to'', JStr ''Ana''), (''text'', JStr ''oi Ana''),
              (''type'', JStr ''private_message''), (''time'', JStr ''21:00:06'')]),
         (7, [(''from'', JStr ''Carla''), (''to'', JStr ''Bob''), (''text'', JStr ''oi''),
              (''type'', JStr ''private_message''), (''time'', JStr ''21:00:07'')])],
      receitas = []\<rparr>"

text \<open>The decimal numeral of a number, as a client writes it in \<open>limit=k\<close>.\<close>

definition digit_char :: "nat \<Rightarrow> char" where
  "digit_char n = ''0123456789'' ! n"

fun decimal :: "nat \<Rightarrow> string" where
  "decimal n = (if n < 10 then [digit_char n] else decimal (n div 10) @ [digit_char (n mod 10)])"

declare decimal.simps [simp del]

text \<open>Ana has joined and has sent a private message to Todos.\<close>

definition whisper_room :: db where
  "whisper_room =
     \<lparr>participants = [\<lparr>name = ''Ana'', lastStatus = 1000\<rparr>],
      messages =
        [(1, [(''from'', JStr ''Ana''), (''to'', JStr ''Todos''), (''text'', JStr ''entra na sala...''),
              (''type'', JStr ''status''), (''time'', JStr ''21:00:01'')]),
         (2, [(''from'', JStr ''Ana''), (''to'', JStr ''Todos''), (''text'', JStr ''segredo''),
              (''type'', JStr ''private_message''), (''time'', JStr ''21:00:02'')])],
      receitas = []\<rparr>"

text \<open>
  Ana has joined through the chat service; a participant whose name is the text
  \<open><b>Ana</b>\<close> has joined through the earlier variant and has sent a message there.
\<close>

definition mixed_room :: db where
  "mixed_room =
     \<lparr>participants =
        [\<lparr>name = ''Ana'', lastStatus = 1000\<rparr>, \<lparr>name = ''<b>Ana</b>'', lastStatus = 2000\<rparr>],
      messages =
        [(1, [(''from'', JStr ''Ana''), (''to'', JStr ''Todos''), (''text'', JStr ''entra na sala...''),
              (''type'', JStr ''status''), (''time'', JStr ''21:00:01'')]),
         (2, [(''from'', JStr ''<b>Ana</b>''), (''to'', JStr ''Todos''), (''text'', JStr ''entra na sala...''),
              (''type'', JStr ''status''), (''time'', JStr ''21:00:02'')]),
         (3, [(''from'', JStr ''<b>Ana</b>''), (''to'', JStr ''Todos''), (''text'', JStr ''oi''),
              (''type'', JStr ''message''), (''time'', JStr ''21:00:03'')])],
      receitas = []\<rparr>"

section \<open>Objects and collections\<close>

lemma getprop_set_prop:
  "getprop (set_prop k v ob) k' = (if k' = k then v else getprop ob k')"
  by (induction ob) (auto simp: getprop_def)

lemma getprop_fold_set_prop:
  "getprop (fold (\<lambda>k. set_prop k (f k)) ks t) k' = (if k' \<in> set ks then f k' else getprop t k')"
  by (induction ks arbitrary: t) (auto simp: getprop_set_prop)

lemma getprop_assign:
  "getprop (assign t s) k = (if k \<in> fst ` set s then getprop s k else getprop t k)"
  by (simp add: assign_def getprop_fold_set_prop)

lemma getprop_absent: "k \<notin> fst ` set ob \<Longrightarrow> getprop ob k = JUndefined"
  using map_of_eq_None_iff [of ob k] by (simp add: getprop_def)

lemma fold_insertOne:
  "\<exists>ids. length ids = length ps \<and>
     fold (\<lambda>p c. insertOne (f p) c) ps c = c @ zip ids (map f ps)"
proof (induction ps arbitrary: c)
  case Nil
  then show ?case by simp
next
  case (Cons p ps)
  from Cons.IH [of "insertOne (f p) c"] obtain ids where
    ids: "length ids = length ps"
      "fold (\<lambda>p c. insertOne (f p) c) ps (insertOne (f p) c) = insertOne (f p) c @ zip ids (map f ps)"
    by blast
  have "length (new_id c # ids) = length (p # ps)"
    using ids by simp
  moreover have "fold (\<lambda>p c. insertOne (f p) c) (p # ps) c = c @ zip (new_id c # ids) (map f (p # ps))"
    using ids by (simp add: insertOne_def)
  ultimately show ?case by blast
qed

lemma findOne_name_append:
  "findOne_name nm (ps @ qs) =
     (case findOne_name nm ps of None \<Rightarrow> findOne_name nm qs | Some p \<Rightarrow> Some p)"
  by (induction ps) (auto simp: findOne_name_def)

lemma schemaParticipant_string:
  "schemaParticipant body \<Longrightarrow> \<exists>s. getprop body ''name'' = JStr s \<and> s \<noteq> []"
  by (auto simp: schemaParticipant_def joi_string_required_def split: jsval.splits)

section \<open>The presence sweep\<close>

text \<open>
  C3. A run of the sweep at time \<open>now\<close>, with cutoff \<open>now - 10000\<close>: when no participant
  has \<open>lastStatus\<close> below the cutoff, the store is left as it is. Otherwise the
  participants that remain are exactly those with \<open>lastStatus\<close> at or above the cutoff,
  in their order; the messages grow by one status message for each participant of the
  snapshot (from its name, to Todos, text "sai da sala...", type status, time the sweep
  time as HH:mm:ss), and nothing else changes.
\<close>

theorem presence_sweep:
  "(filter (\<lambda>p. lastStatus p < now - 10000) (participants d) = [] \<longrightarrow>
      removeInactiveParticipants e now d = d) \<and>
   (filter (\<lambda>p. lastStatus p < now - 10000) (participants d) \<noteq> [] \<longrightarrow>
      participants (removeInactiveParticipants e now d) =
        filter (\<lambda>p. now - 10000 \<le> lastStatus p) (participants d) \<and>
      (\<exists>ids. length ids = length (filter (\<lambda>p. lastStatus p < now - 10000) (participants d)) \<and>
         messages (removeInactiveParticipants e now d) =
           messages d @
           zip ids
             (map (\<lambda>p. [(''from'', JStr (name p)), (''to'', JStr ''Todos''),
                         (''text'', JStr ''sai da sala...''), (''type'', JStr ''status''),
                         (''time'', JStr (format_HHmmss (utcOffset e) now))])
                (filter (\<lambda>p. lastStatus p < now - 10000) (participants d)))) \<and>
      receitas (removeInactiveParticipants e now d) = receitas d)"
proof -
  let ?snap = "filter (\<lambda>p. lastStatus p < now - 10000) (participants d)"
  have snap: "filter (stale now) (participants d) = ?snap"
    by (rule filter_cong) (simp_all add: stale_def)
  have keep: "filter (\<lambda>p. \<not> stale now p) (participants d) =
      filter (\<lambda>p. now - 10000 \<le> lastStatus p) (participants d)"
    by (rule filter_cong) (simp_all add: stale_def not_less)
  have leave: "leave_message e now =
      (\<lambda>p. [(''from'', JStr (name p)), (''to'', JStr ''Todos''),
             (''text'', JStr ''sai da sala...''), (''type'', JStr ''status''),
             (''time'', JStr (format_HHmmss (utcOffset e) now))])"
    by (rule ext) (simp add: leave_message_def)
  show ?thesis
  proof (cases "?snap = []")
    case True
    then show ?thesis
      by (simp add: removeInactiveParticipants_def snap)
  next
    case False
    obtain ids where ids: "length ids = length ?snap"
      "fold (\<lambda>p c. insertOne (leave_message e now p) c) ?snap (messages d) =
         messages d @ zip ids (map (leave_message e now) ?snap)"
      using fold_insertOne [of ?snap "leave_message e now" "messages d"] by blast
    have "messages (removeInactiveParticipants e now d) =
        messages d @ zip ids (map (leave_message e now) ?snap)"
      using False ids(2) by (simp add: removeInactiveParticipants_def snap Let_def)
    with False ids(1) show ?thesis
      unfolding leave [symmetric]
      by (auto simp: removeInactiveParticipants_def snap keep Let_def)
  qed
qed

theorem presence_sweep_witness:
  "filter (\<lambda>p. lastStatus p < 20000 - 10000) (participants sweep_db) \<noteq> [] \<and>
   participants (removeInactiveParticipants server 20000 sweep_db) =
     [\<lparr>name = ''Bob'', lastStatus = 15000\<rparr>] \<and>
   map snd (messages (removeInactiveParticipants server 20000 sweep_db)) =
     [[(''from'', JStr ''Ana''), (''to'', JStr ''Todos''), (''text'', JStr ''sai da sala...''),
       (''type'', JStr ''status''), (''time'', JStr ''21:00:20'')]]"
proof -
  have h: "filter (\<lambda>p. lastStatus p < 20000 - 10000) (participants sweep_db) \<noteq> []"
    by (simp add: sweep_db_def)
  have t: "format_HHmmss (utcOffset server) 20000 = ''21:00:20''"
    by (simp add: format_HHmmss_def pad2_def server_def)
  from presence_sweep [of 20000 sweep_db server] h t show ?thesis
    by (auto simp: sweep_db_def)
qed

section \<open>Joining\<close>

text \<open>
  C5. A join whose name is already a participant's changes nothing and is answered with
  409 (with 422 when the body does not pass the schema), in the chat service, where the
  name looked up is the sanitized one, and in the earlier variant, where it is the name
  as sent. Joining twice with the same valid body is answered 201, then 409, and the
  second join changes nothing.
\<close>

theorem join_conflict:
  "(getprop body ''name'' = JStr raw \<and>
    findOne_name (trim (stripHtml e raw)) (participants d) \<noteq> None \<longrightarrow>
      post_participants e t1 t2 body d =
        (Status (if schemaParticipant body then 409 else 422), d)) \<and>
   (getprop body ''name'' = JStr raw \<and> findOne_name raw (participants d) \<noteq> None \<longrightarrow>
      post_participants_part000 e t1 t2 body d =
        (Status (if schemaParticipant body then 409 else 422), d)) \<and>
   (schemaParticipant body \<and> getprop body ''name'' = JStr raw \<and>
    findOne_name (trim (stripHtml e raw)) (participants d) = None \<longrightarrow>
      fst (post_participants e t1 t2 body d) = Status 201 \<and>
      post_participants e t3 t4 body (snd (post_participants e t1 t2 body d)) =
        (Status 409, snd (post_participants e t1 t2 body d))) \<and>
   (schemaParticipant body \<and> getprop body ''name'' = JStr raw \<and>
    findOne_name raw (participants d) = None \<longrightarrow>
      fst (post_participants_part000 e t1 t2 body d) = Status 201 \<and>
      post_participants_part000 e t3 t4 body (snd (post_participants_part000 e t1 t2 body d)) =
        (Status 409, snd (post_participants_part000 e t1 t2 body d)))"
proof (intro conjI impI)
  assume "getprop body ''name'' = JStr raw \<and>
    findOne_name (trim (stripHtml e raw)) (participants d) \<noteq> None"
  then show "post_participants e t1 t2 body d =
      (Status (if schemaParticipant body then 409 else 422), d)"
    by (auto simp: post_participants_def sanitize_def)
next
  assume "getprop body ''name'' = JStr raw \<and> findOne_name raw (participants d) \<noteq> None"
  then show "post_participants_part000 e t1 t2 body d =
      (Status (if schemaParticipant body then 409 else 422), d)"
    by (auto simp: post_participants_part000_def)
next
  assume a: "schemaParticipant body \<and> getprop body ''name'' = JStr raw \<and>
    findOne_name (trim (stripHtml e raw)) (participants d) = None"
  then show "fst (post_participants e t1 t2 body d) = Status 201"
    by (simp add: post_participants_def sanitize_def Let_def)
  from a show "post_participants e t3 t4 body (snd (post_participants e t1 t2 body d)) =
      (Status 409, snd (post_participants e t1 t2 body d))"
    by (simp add: post_participants_def sanitize_def Let_def findOne_name_append)
       (simp add: findOne_name_def)
next
  assume a: "schemaParticipant body \<and> getprop body ''name'' = JStr raw \<and>
    findOne_name raw (participants d) = None"
  then show "fst (post_participants_part000 e t1 t2 body d) = Status 201"
    by (simp add: post_participants_part000_def Let_def)
  from a show "post_participants_part000 e t3 t4 body (snd (post_participants_part000 e t1 t2 body d)) =
      (Status 409, snd (post_participants_part000 e t1 t2 body d))"
    by (simp add: post_participants_part000_def Let_def findOne_name_append)
       (simp add: findOne_name_def)
qed

theorem join_conflict_witness:
  "findOne_name (trim (stripHtml server ''<b>Ana</b>'')) (participants ana_room) \<noteq> None \<and>
   post_participants server 5000 5001 [(''name'', JStr ''<b>Ana</b>'')] ana_room =
     (Status 409, ana_room) \<and>
   findOne_name ''Ana'' (participants ana_room) \<noteq> None \<and>
   post_participants_part000 server 5000 5001 [(''name'', JStr ''Ana'')] ana_room =
     (Status 409, ana_room) \<and>
   findOne_name (trim (stripHtml server ''<b>Ana</b>'')) (participants empty_db) = None \<and>
   fst (post_participants server 1000 1001 [(''name'', JStr ''<b>Ana</b>'')] empty_db) = Status 201 \<and>
   post_participants server 5000 5001 [(''name'', JStr ''<b>Ana</b>'')]
       (snd (post_participants server 1000 1001 [(''name'', JStr ''<b>Ana</b>'')] empty_db)) =
     (Status 409, snd (post_participants server 1000 1001 [(''name'', JStr ''<b>Ana</b>'')] empty_db)) \<and>
   fst (post_participants_part000 server 1000 1001 [(''name'', JStr ''Ana'')] empty_db) = Status 201 \<and>
   post_participants_part000 server 5000 5001 [(''name'', JStr ''Ana'')]
       (snd (post_participants_part000 server 1000 1001 [(''name'', JStr ''Ana'')] empty_db)) =
     (Status 409, snd (post_participants_part000 server 1000 1001 [(''name'', JStr ''Ana'')] empty_db))"
proof -
  have s: "trim (stripHtml server ''<b>Ana</b>'') = ''Ana''"
    by (simp add: server_def trim_def is_ws_def)
  have v1: "schemaParticipant [(''name'', JStr ''<b>Ana</b>'')]"
    and v2: "schemaParticipant [(''name'', JStr ''Ana'')]"
    by (simp_all add: schemaParticipant_def joi_string_required_def known_keys_def getprop_def)
  have g1: "getprop [(''name'', JStr ''<b>Ana</b>'')] ''name'' = JStr ''<b>Ana</b>''"
    and g2: "getprop [(''name'', JStr ''Ana'')] ''name'' = JStr ''Ana''"
    by (simp_all add: getprop_def)
  have f1: "findOne_name ''Ana'' (participants ana_room) \<noteq> None"
    and f2: "findOne_name ''Ana'' (participants empty_db) = None"
    by (simp_all add: findOne_name_def ana_room_def empty_db_def)
  from join_conflict [where body = "[(''name'', JStr ''<b>Ana</b>'')]" and raw = "''<b>Ana</b>''"
        and e = server and d = ana_room and ?t1.0 = 5000 and ?t2.0 = 5001]
    join_conflict [where body = "[(''name'', JStr ''Ana'')]" and raw = "''Ana''"
        and e = server and d = ana_room and ?t1.0 = 5000 and ?t2.0 = 5001]
    join_conflict [where body = "[(''name'', JStr ''<b>Ana</b>'')]" and raw = "''<b>Ana</b>''"
        and e = server and d = empty_db and ?t1.0 = 1000 and ?t2.0 = 1001
        and ?t3.0 = 5000 and ?t4.0 = 5001]
    join_conflict [where body = "[(''name'', JStr ''Ana'')]" and raw = "''Ana''"
        and e = server and d = empty_db and ?t1.0 = 1000 and ?t2.0 = 1001
        and ?t3.0 = 5000 and ?t4.0 = 5001]
    s v1 v2 g1 g2 f1 f2
  show ?thesis by simp
qed

section \<open>The recipe catalogue\<close>

text \<open>
  C9. The bulk delete answers 204 whatever the filter matches. The recipes that remain
  are, in their order and unchanged, those whose \<open>ingredientes\<close> is not the very string
  of the filter; so the recipes deleted are exactly those whose \<open>ingredientes\<close> equals
  it. The other collections are untouched.
\<close>

theorem delete_many_exact:
  "fst (delete_receitas_muitas f d) = Status 204 \<and>
   receitas (snd (delete_receitas_muitas f d)) =
     filter (\<lambda>doc. getprop (snd doc) ''ingredientes'' \<noteq> JStr f) (receitas d) \<and>
   set (receitas (snd (delete_receitas_muitas f d))) =
     set (receitas d) - {doc. getprop (snd doc) ''ingredientes'' = JStr f} \<and>
   participants (snd (delete_receitas_muitas f d)) = participants d \<and>
   messages (snd (delete_receitas_muitas f d)) = messages d"
  by (auto simp: delete_receitas_muitas_def)

text \<open>
  The match is on the whole string: the filter "ovo" deletes the recipe whose
  ingredients are "ovo" and keeps the one whose ingredients are "ovo, leite"; a filter
  that matches nothing deletes nothing.
\<close>

lemma delete_many_not_substring:
  "map fst (receitas (snd (delete_receitas_muitas ''ovo'' receitas_db))) = [2] \<and>
   delete_receitas_muitas ''leite'' receitas_db = (Status 204, receitas_db)"
  by (simp add: delete_receitas_muitas_def receitas_db_def getprop_def)

section \<open>Reading messages\<close>

lemma find_visible_filter:
  "find_visible (JStr u) c =
     filter (\<lambda>doc. getprop (snd doc) ''type'' = JStr ''message'' \<or>
                   getprop (snd doc) ''to'' = JStr ''Todos'' \<or>
                   (getprop (snd doc) ''type'' = JStr ''private_message'' \<and>
                    (getprop (snd doc) ''to'' = JStr u \<or> getprop (snd doc) ''from'' = JStr u))) c"
  unfolding find_visible_def by (rule filter_cong) (simp_all add: visible_def)

lemma slice_zero: "slice 0 xs = xs"
  by (simp add: slice_def)

lemma set_slice: "set (slice i xs) \<subseteq> set xs"
  by (simp add: slice_def Let_def set_drop_subset)

lemma rev_slice_neg: "0 < k \<Longrightarrow> rev (slice (- k) xs) = take (nat k) (rev xs)"
proof -
  assume k: "0 < k"
  have "nat (max (int (length xs) - k) 0) = length xs - nat k"
    using k by (simp add: max_def nat_diff_distrib')
  then have "slice (- k) xs = drop (length xs - nat k) xs"
    using k by (simp add: slice_def Let_def)
  then show ?thesis by (simp add: take_rev)
qed

lemma get_messages_no_limit:
  "findOne_name (trim (stripHtml e u)) (participants d) \<noteq> None \<Longrightarrow>
     get_messages e (Some u) None d = Messages (rev (find_visible (JStr u) (messages d)))"
  by (auto simp: get_messages_def Let_def)

lemma get_messages_part000_no_limit:
  "findOne_name u (participants d) \<noteq> None \<Longrightarrow>
     get_messages_part000 (Some u) None d = Messages (rev (find_visible (JStr u) (messages d)))"
proof -
  have "parseInt ''undefined'' = None" by code_simp
  moreover assume "findOne_name u (participants d) \<noteq> None"
  ultimately show ?thesis
    by (auto simp: get_messages_part000_def Let_def findOne_header_def header_def slice_zero)
qed

lemma returned_get_messages:
  "set (returned (get_messages e (Some u) limit d)) \<subseteq> set (find_visible (JStr u) (messages d))"
  using set_slice [of _ "find_visible (JStr u) (messages d)"]
  by (auto simp: get_messages_def returned_def Let_def split: option.splits)

lemma returned_get_messages_part000:
  "set (returned (get_messages_part000 (Some u) limit d)) \<subseteq> set (find_visible (JStr u) (messages d))"
  using set_slice [of _ "find_visible (JStr u) (messages d)"]
  by (auto simp: get_messages_part000_def returned_def Let_def header_def split: option.splits)

text \<open>
  C1, as the code has it by design. A requester is a user header that is its own
  sanitized form and names a participant (in the earlier variant, which has no
  sanitizer: a header that names a participant). A request for the messages with no limit
  is answered with exactly the stored messages that satisfy the three clauses for the
  requester, the newest first: type \<open>message\<close>, or to \<open>Todos\<close>, or type
  \<open>private_message\<close> with to or from equal to the requester. Whatever the limit, a
  private message whose to is not \<open>Todos\<close> and whose to and from both differ from
  the requester is not in the answer. With no limit, every stored message of type
  \<open>message\<close> is in the answer to every request that passes the participant check.
  What the chat service returns for a header that differs from its sanitized form is not
  part of this statement.
\<close>

theorem visibility_filter:
  "(trim (stripHtml e u) = u \<and> findOne_name u (participants d) \<noteq> None \<longrightarrow>
      get_messages e (Some u) None d =
        Messages (rev (filter
          (\<lambda>doc. getprop (snd doc) ''type'' = JStr ''message'' \<or>
                 getprop (snd doc) ''to'' = JStr ''Todos'' \<or>
                 (getprop (snd doc) ''type'' = JStr ''private_message'' \<and>
                  (getprop (snd doc) ''to'' = JStr u \<or> getprop (snd doc) ''from'' = JStr u)))
          (messages d)))) \<and>
   (findOne_name u (participants d) \<noteq> None \<longrightarrow>
      get_messages_part000 (Some u) None d =
        Messages (rev (filter
          (\<lambda>doc. getprop (snd doc) ''type'' = JStr ''message'' \<or>
                 getprop (snd doc) ''to'' = JStr ''Todos'' \<or>
                 (getprop (snd doc) ''type'' = JStr ''private_message'' \<and>
                  (getprop (snd doc) ''to'' = JStr u \<or> getprop (snd doc) ''from'' = JStr u)))
          (messages d)))) \<and>
   (getprop (snd doc) ''type'' = JStr ''private_message'' \<and>
    getprop (snd doc) ''to'' \<noteq> JStr ''Todos'' \<and>
    getprop (snd doc) ''to'' \<noteq> JStr u \<and> getprop (snd doc) ''from'' \<noteq> JStr u \<longrightarrow>
      (trim (stripHtml e u) = u \<longrightarrow>
         doc \<notin> set (returned (get_messages e (Some u) limit d))) \<and>
      doc \<notin> set (returned (get_messages_part000 (Some u) limit d))) \<and>
   (doc \<in> set (messages d) \<and> getprop (snd doc) ''type'' = JStr ''message'' \<longrightarrow>
      (findOne_name (trim (stripHtml e u)) (participants d) \<noteq> None \<longrightarrow>
         doc \<in> set (returned (get_messages e (Some u) None d))) \<and>
      (findOne_name u (participants d) \<noteq> None \<longrightarrow>
         doc \<in> set (returned (get_messages_part000 (Some u) None d))))"
proof (intro conjI impI)
  assume "trim (stripHtml e u) = u \<and> findOne_name u (participants d) \<noteq> None"
  then show "get_messages e (Some u) None d =
        Messages (rev (filter
          (\<lambda>doc. getprop (snd doc) ''type'' = JStr ''message'' \<or>
                 getprop (snd doc) ''to'' = JStr ''Todos'' \<or>
                 (getprop (snd doc) ''type'' = JStr ''private_message'' \<and>
                  (getprop (snd doc) ''to'' = JStr u \<or> getprop (snd doc) ''from'' = JStr u)))
          (messages d)))"
    by (simp add: get_messages_no_limit find_visible_filter)
next
  assume "findOne_name u (participants d) \<noteq> None"
  then show "get_messages_part000 (Some u) None d =
        Messages (rev (filter
          (\<lambda>doc. getprop (snd doc) ''type'' = JStr ''message'' \<or>
                 getprop (snd doc) ''to'' = JStr ''Todos'' \<or>
                 (getprop (snd doc) ''type'' = JStr ''private_message'' \<and>
                  (getprop (snd doc) ''to'' = JStr u \<or> getprop (snd doc) ''from'' = JStr u)))
          (messages d)))"
    by (simp add: get_messages_part000_no_limit find_visible_filter)
next
  assume a: "getprop (snd doc) ''type'' = JStr ''private_message'' \<and>
    getprop (snd doc) ''to'' \<noteq> JStr ''Todos'' \<and>
    getprop (snd doc) ''to'' \<noteq> JStr u \<and> getprop (snd doc) ''from'' \<noteq> JStr u"
  then have "doc \<notin> set (find_visible (JStr u) (messages d))"
    by (simp add: find_visible_def visible_def)
  then show "doc \<notin> set (returned (get_messages e (Some u) limit d))"
    and "doc \<notin> set (returned (get_messages_part000 (Some u) limit d))"
    using returned_get_messages [of e u limit d] returned_get_messages_part000 [of u limit d]
    by blast+
next
  assume a: "doc \<in> set (messages d) \<and> getprop (snd doc) ''type'' = JStr ''message''"
  then have v: "doc \<in> set (find_visible (JStr u) (messages d))"
    by (simp add: find_visible_def visible_def)
  { assume "findOne_name (trim (stripHtml e u)) (participants d) \<noteq> None"
    then show "doc \<in> set (returned (get_messages e (Some u) None d))"
      using v by (simp add: get_messages_no_limit returned_def) }
  { assume "findOne_name u (participants d) \<noteq> None"
    then show "doc \<in> set (returned (get_messages_part000 (Some u) None d))"
      using v by (simp add: get_messages_part000_no_limit returned_def) }
qed

text \<open>
  C1 as stated fails for a participant who joined under the name Todos: a private message
  from Ana to the participant Todos is returned to the third participant Bob, by the
  clause for to \<open>Todos\<close>. The state is the one the four requests below produce.
\<close>

theorem private_to_Todos_counterexample:
  "map name (participants todos_room) = [''Ana'', ''Todos'', ''Bob''] \<and>
   get_messages server (Some ''Bob'') None todos_room =
     Messages
       [(4, [(''from'', JStr ''Ana''), (''to'', JStr ''Todos''), (''text'', JStr ''segredo''),
             (''type'', JStr ''private_message''), (''time'', JStr ''21:00:04'')]),
        (3, [(''from'', JStr ''Bob''), (''to'', JStr ''Todos''), (''text'', JStr ''entra na sala...''),
             (''type'', JStr ''status''), (''time'', JStr ''21:00:03'')]),
        (2, [(''from'', JStr ''Todos''), (''to'', JStr ''Todos''), (''text'', JStr ''entra na sala...''),
             (''type'', JStr ''status''), (''time'', JStr ''21:00:02'')]),
        (1, [(''from'', JStr ''Ana''), (''to'', JStr ''Todos''), (''text'', JStr ''entra na sala...''),
             (''type'', JStr ''status''), (''time'', JStr ''21:00:01'')])] \<and>
   todos_room =
     snd (post_messages server 4000 (Some ''Ana'')
            [(''to'', JStr ''Todos''), (''text'', JStr ''segredo''), (''type'', JStr ''private_message'')]
       (snd (post_participants server 3000 3000 [(''name'', JStr ''Bob'')]
         (snd (post_participants server 2000 2000 [(''name'', JStr ''Todos'')]
           (snd (post_participants server 1000 1000 [(''name'', JStr ''Ana'')] empty_db)))))))"
  by code_simp

theorem visibility_filter_witness:
  "trim (stripHtml server ''Bob'') = ''Bob'' \<and>
   findOne_name ''Bob'' (participants chat_room) \<noteq> None \<and>
   map fst (returned (get_messages server (Some ''Bob'') None chat_room)) = [7, 6, 4, 3, 2, 1] \<and>
   map fst (returned (get_messages_part000 (Some ''Bob'') None chat_room)) = [7, 6, 4, 3, 2, 1] \<and>
   (5, [(''from'', JStr ''Ana''), (''to'', JStr ''Carla''), (''text'', JStr ''segredo''),
        (''type'', JStr ''private_message''), (''time'', JStr ''21:00:05'')])
     \<notin> set (returned (get_messages server (Some ''Bob'') (Some ''1'') chat_room)) \<and>
   (5, [(''from'', JStr ''Ana''), (''to'', JStr ''Carla''), (''text'', JStr ''segredo''),
        (''type'', JStr ''private_message''), (''time'', JStr ''21:00:05'')])
     \<notin> set (returned (get_messages_part000 (Some ''Bob'') None chat_room)) \<and>
   (4, [(''from'', JStr ''Ana''), (''to'', JStr ''Bob''), (''text'', JStr ''oi Bob''),
        (''type'', JStr ''message''), (''time'', JStr ''21:00:04'')])
     \<in> set (returned (get_messages server (Some ''Bob'') None chat_room))"
proof -
  have s: "trim (stripHtml server ''Bob'') = ''Bob''" by code_simp
  have h: "findOne_name ''Bob'' (participants chat_room) \<noteq> None" by code_simp
  have hs: "findOne_name (trim (stripHtml server ''Bob'')) (participants chat_room) \<noteq> None"
    by code_simp
  have ev: "map fst (rev (filter
          (\<lambda>doc. getprop (snd doc) ''type'' = JStr ''message'' \<or>
                 getprop (snd doc) ''to'' = JStr ''Todos'' \<or>
                 (getprop (snd doc) ''type'' = JStr ''private_message'' \<and>
                  (getprop (snd doc) ''to'' = JStr ''Bob'' \<or> getprop (snd doc) ''from'' = JStr ''Bob'')))
          (messages chat_room))) = [7, 6, 4, 3, 2, 1]"
    by code_simp
  have m4: "(4, [(''from'', JStr ''Ana''), (''to'', JStr ''Bob''), (''text'', JStr ''oi Bob''),
        (''type'', JStr ''message''), (''time'', JStr ''21:00:04'')]) \<in> set (messages chat_room)"
    by (simp add: chat_room_def)
  have t4: "getprop (snd (4 :: nat, [(''from'', JStr ''Ana''), (''to'', JStr ''Bob''), (''text'', JStr ''oi Bob''),
        (''type'', JStr ''message''), (''time'', JStr ''21:00:04'')])) ''type'' = JStr ''message''"
    by (simp add: getprop_def)
  have t5: "getprop (snd (5 :: nat, [(''from'', JStr ''Ana''), (''to'', JStr ''Carla''), (''text'', JStr ''segredo''),
        (''type'', JStr ''private_message''), (''time'', JStr ''21:00:05'')])) ''type'' = JStr ''private_message''"
    "getprop (snd (5 :: nat, [(''from'', JStr ''Ana''), (''to'', JStr ''Carla''), (''text'', JStr ''segredo''),
        (''type'', JStr ''private_message''), (''time'', JStr ''21:00:05'')])) ''to'' = JStr ''Carla''"
    "getprop (snd (5 :: nat, [(''from'', JStr ''Ana''), (''to'', JStr ''Carla''), (''text'', JStr ''segredo''),
        (''type'', JStr ''private_message''), (''time'', JStr ''21:00:05'')])) ''from'' = JStr ''Ana''"
    by (simp_all add: getprop_def)
  note v = visibility_filter [where e = server and u = "''Bob''" and d = chat_room]
  have r1: "map fst (returned (get_messages server (Some ''Bob'') None chat_room)) = [7, 6, 4, 3, 2, 1]"
    using v [of "(0, [])" None] s h ev by (simp add: returned_def)
  have r2: "map fst (returned (get_messages_part000 (Some ''Bob'') None chat_room)) = [7, 6, 4, 3, 2, 1]"
    using v [of "(0, [])" None] h ev by (simp add: returned_def)
  have r3: "(5, [(''from'', JStr ''Ana''), (''to'', JStr ''Carla''), (''text'', JStr ''segredo''),
        (''type'', JStr ''private_message''), (''time'', JStr ''21:00:05'')])
     \<notin> set (returned (get_messages server (Some ''Bob'') (Some ''1'') chat_room))"
    using v [of "(5, [(''from'', JStr ''Ana''), (''to'', JStr ''Carla''), (''text'', JStr ''segredo''),
        (''type'', JStr ''private_message''), (''time'', JStr ''21:00:05'')])" "Some ''1''"] s t5
    by simp
  have r3': "(5, [(''from'', JStr ''Ana''), (''to'', JStr ''Carla''), (''text'', JStr ''segredo''),
        (''type'', JStr ''private_message''), (''time'', JStr ''21:00:05'')])
     \<notin> set (returned (get_messages_part000 (Some ''Bob'') None chat_room))"
    using v [of "(5, [(''from'', JStr ''Ana''), (''to'', JStr ''Carla''), (''text'', JStr ''segredo''),
        (''type'', JStr ''private_message''), (''time'', JStr ''21:00:05'')])" None] t5
    by simp
  have r4: "(4, [(''from'', JStr ''Ana''), (''to'', JStr ''Bob''), (''text'', JStr ''oi Bob''),
        (''type'', JStr ''message''), (''time'', JStr ''21:00:04'')])
     \<in> set (returned (get_messages server (Some ''Bob'') None chat_room))"
    using v [of "(4, [(''from'', JStr ''Ana''), (''to'', JStr ''Bob''), (''text'', JStr ''oi Bob''),
        (''type'', JStr ''message''), (''time'', JStr ''21:00:04'')])" None] hs m4 t4
    by blast
  from s h r1 r2 r3 r3' r4 show ?thesis by blast
qed

section \<open>The limit of a reading\<close>

lemma digit_val_digit_char: "n < 10 \<Longrightarrow> digit_val (digit_char n) = Some n"
proof -
  assume "n < 10"
  then have "n \<in> {0, 1, 2, 3, 4, 5, 6, 7, 8, 9}" by auto
  then show ?thesis
    by (auto simp: digit_val_def digit_char_def)
qed

lemma is_digit_of_digit_char: "n < 10 \<Longrightarrow> is_digit_of 10 (digit_char n)"
  by (simp add: is_digit_of_def digit_val_digit_char)

lemma decimal_digits: "list_all (is_digit_of 10) (decimal n)"
proof (induction n rule: decimal.induct)
  case (1 n)
  show ?case
  proof (cases "n < 10")
    case True
    then show ?thesis by (simp add: decimal.simps [of n] is_digit_of_digit_char)
  next
    case False
    with 1 show ?thesis by (simp add: decimal.simps [of n] is_digit_of_digit_char)
  qed
qed

lemma decimal_not_empty: "decimal n \<noteq> []"
  by (simp add: decimal.simps [of n])

lemma digits_value_snoc:
  "digits_value r (ds @ [c]) =
     digits_value r ds * r + (case digit_val c of None \<Rightarrow> 0 | Some v \<Rightarrow> v)"
  by (simp add: digits_value_def)

lemma digits_value_decimal: "digits_value 10 (decimal n) = n"
proof (induction n rule: decimal.induct)
  case (1 n)
  show ?case
  proof (cases "n < 10")
    case True
    then show ?thesis
      by (simp add: decimal.simps [of n] digits_value_def digit_val_digit_char)
  next
    case False
    with 1 show ?thesis
      by (simp add: decimal.simps [of n] digits_value_snoc digit_val_digit_char)
  qed
qed

lemma decimal_digit_range:
  "is_digit_of 10 c \<Longrightarrow> 48 \<le> (of_char c :: nat) \<and> (of_char c :: nat) \<le> 57"
  by (auto simp: is_digit_of_def digit_val_def Let_def split: if_splits)

lemma decimal_digit_plain:
  assumes "is_digit_of 10 c"
  shows "\<not> is_ws c" and "c \<noteq> CHR ''-''" and "c \<noteq> CHR ''+''" and "c \<noteq> CHR ''x''" and "c \<noteq> CHR ''X''"
  using decimal_digit_range [OF assms] by (auto simp: is_ws_def)

lemma parseInt_digits:
  assumes all: "list_all (is_digit_of 10) s" and ne: "s \<noteq> []"
  shows "parseInt s = Some (int (digits_value 10 s))"
proof -
  obtain c cs where s: "s = c # cs" using ne by (cases s) auto
  have c: "is_digit_of 10 c" using all s by simp
  have ws: "dropWhile is_ws s = s"
    using decimal_digit_plain(1) [OF c] s by simp
  have sign: "take 1 s \<noteq> ''-''" "take 1 s \<noteq> ''+''"
    using decimal_digit_plain(2,3) [OF c] s by auto
  have hex: "\<not> has_hex_prefix s"
  proof
    assume "has_hex_prefix s"
    then obtain b where "take 2 s = [CHR ''0'', b]" and b: "b = CHR ''x'' \<or> b = CHR ''X''"
      by (auto simp: has_hex_prefix_def)
    then have "b \<in> set (take 2 s)" by simp
    then have "b \<in> set s" by (rule in_set_takeD)
    then have "is_digit_of 10 b" using all by (simp add: list_all_iff)
    with b decimal_digit_plain(4,5) show False by blast
  qed
  have tw: "takeWhile (is_digit_of 10) s = s"
    using all by (simp add: takeWhile_eq_all_conv list_all_iff)
  show ?thesis
    unfolding parseInt_def Let_def ws using sign hex ne by (simp add: tw)
qed

lemma parseInt_decimal: "parseInt (decimal n) = Some (int n)"
  using parseInt_digits [OF decimal_digits decimal_not_empty, of n]
  by (simp add: digits_value_decimal)

lemma decimal_hd_nonzero: "0 < n \<Longrightarrow> hd (decimal n) \<noteq> CHR ''0''"
proof (induction n rule: decimal.induct)
  case (1 n)
  show ?case
  proof (cases "n < 10")
    case True
    with 1(2) have "n \<in> {1, 2, 3, 4, 5, 6, 7, 8, 9}" by auto
    then show ?thesis
      using True by (auto simp: decimal.simps [of n] digit_char_def)
  next
    case False
    then have "0 < n div 10" by simp
    with 1(1) False have "hd (decimal (n div 10)) \<noteq> CHR ''0''" by simp
    then show ?thesis
      using False decimal_not_empty [of "n div 10"] by (simp add: decimal.simps [of n])
  qed
qed

text \<open>
  A run of decimal digits that does not start with 0, followed by nothing or by a
  character that is not a decimal digit, is read as the number the digits write.
\<close>

lemma parseInt_prefix:
  assumes all: "list_all (is_digit_of 10) ds" and ne: "ds \<noteq> []" and nz: "hd ds \<noteq> CHR ''0''"
    and rest: "rest = [] \<or> \<not> is_digit_of 10 (hd rest)"
  shows "parseInt (ds @ rest) = Some (int (digits_value 10 ds))"
proof -
  let ?s = "ds @ rest"
  obtain c cs where ds: "ds = c # cs" using ne by (cases ds) auto
  have c: "is_digit_of 10 c" using all ds by simp
  have ws: "dropWhile is_ws ?s = ?s"
    using decimal_digit_plain(1) [OF c] ds by simp
  have sign: "take 1 ?s \<noteq> ''-''" "take 1 ?s \<noteq> ''+''"
    using decimal_digit_plain(2,3) [OF c] ds by auto
  have hex: "\<not> has_hex_prefix ?s"
    using nz ds by (auto simp: has_hex_prefix_def)
  have "takeWhile (is_digit_of 10) rest = []"
    using rest by (cases rest) auto
  then have tw: "takeWhile (is_digit_of 10) ?s = ds"
    using all by (simp add: takeWhile_append2 list_all_iff)
  show ?thesis
    unfolding parseInt_def Let_def ws using sign hex ne by (simp add: tw)
qed

lemma parseInt_decimal_prefix:
  "0 < n \<Longrightarrow> rest = [] \<or> \<not> is_digit_of 10 (hd rest) \<Longrightarrow>
     parseInt (decimal n @ rest) = Some (int n)"
  using parseInt_prefix [OF decimal_digits decimal_not_empty decimal_hd_nonzero, of n rest]
  by (simp add: digits_value_decimal)

lemma get_messages_limit:
  "findOne_name (trim (stripHtml e u)) (participants d) \<noteq> None \<Longrightarrow> parseInt l = Some k \<Longrightarrow> 0 < k \<Longrightarrow>
     get_messages e (Some u) (Some l) d =
       Messages (take (nat k) (rev (find_visible (JStr u) (messages d))))"
  by (auto simp: get_messages_def Let_def rev_slice_neg)

text \<open>
  C4, as the code has it by design. For a request that passes the participant check and
  gives a limit that \<open>parseInt\<close> reads as a number \<open>k > 0\<close>, the answer is the
  first \<open>k\<close> of the messages the same request is answered with no limit, in the same
  order, hence \<open>min k total\<close> of them; for a requester (a header that is its own
  sanitized form and names a participant; in the earlier variant a header that names one)
  these are the first \<open>k\<close> of the visible messages, the newest first.
  \<open>parseInt\<close> reads the decimal numeral of \<open>k\<close> as \<open>k\<close>, and also that numeral
  followed by any text that does not start with a digit, when \<open>k > 0\<close>. In the chat
  service a limit that \<open>parseInt\<close> reads as NaN or as a number \<open>\<le> 0\<close> is answered
  422; in the earlier variant a limit read as a number \<open>\<le> 0\<close> is.
\<close>

theorem limit_newest:
  "(findOne_name (trim (stripHtml e u)) (participants d) \<noteq> None \<and> parseInt l = Some k \<and> 0 < k \<longrightarrow>
      get_messages e (Some u) (Some l) d =
        Messages (take (nat k) (returned (get_messages e (Some u) None d))) \<and>
      length (returned (get_messages e (Some u) (Some l) d)) =
        min (nat k) (length (returned (get_messages e (Some u) None d)))) \<and>
   (trim (stripHtml e u) = u \<and> findOne_name u (participants d) \<noteq> None \<and>
    parseInt l = Some k \<and> 0 < k \<longrightarrow>
      get_messages e (Some u) (Some l) d =
        Messages (take (nat k) (rev (find_visible (JStr u) (messages d))))) \<and>
   (findOne_name (trim (stripHtml e u)) (participants d) \<noteq> None \<and>
    (parseInt l = None \<or> (\<exists>j. parseInt l = Some j \<and> j \<le> 0)) \<longrightarrow>
      get_messages e (Some u) (Some l) d = Status 422) \<and>
   (findOne_name u (participants d) \<noteq> None \<and> parseInt l = Some k \<and> 0 < k \<longrightarrow>
      get_messages_part000 (Some u) (Some l) d =
        Messages (take (nat k) (rev (find_visible (JStr u) (messages d)))) \<and>
      length (returned (get_messages_part000 (Some u) (Some l) d)) =
        min (nat k) (length (find_visible (JStr u) (messages d)))) \<and>
   (findOne_name u (participants d) \<noteq> None \<and> parseInt l = Some k \<and> k \<le> 0 \<longrightarrow>
      get_messages_part000 (Some u) (Some l) d = Status 422) \<and>
   parseInt (decimal n) = Some (int n) \<and>
   (0 < n \<and> (rest = [] \<or> \<not> is_digit_of 10 (hd rest)) \<longrightarrow>
      parseInt (decimal n @ rest) = Some (int n))"
proof (intro conjI impI)
  assume a: "findOne_name (trim (stripHtml e u)) (participants d) \<noteq> None \<and> parseInt l = Some k \<and> 0 < k"
  then have n: "returned (get_messages e (Some u) None d) = rev (find_visible (JStr u) (messages d))"
    by (simp add: get_messages_no_limit returned_def)
  from a show g: "get_messages e (Some u) (Some l) d =
        Messages (take (nat k) (returned (get_messages e (Some u) None d)))"
    by (simp add: n get_messages_limit)
  show "length (returned (get_messages e (Some u) (Some l) d)) =
        min (nat k) (length (returned (get_messages e (Some u) None d)))"
    unfolding g by (simp add: returned_def)
next
  assume "trim (stripHtml e u) = u \<and> findOne_name u (participants d) \<noteq> None \<and>
    parseInt l = Some k \<and> 0 < k"
  then show "get_messages e (Some u) (Some l) d =
        Messages (take (nat k) (rev (find_visible (JStr u) (messages d))))"
    by (simp add: get_messages_limit)
next
  assume "findOne_name (trim (stripHtml e u)) (participants d) \<noteq> None \<and>
    (parseInt l = None \<or> (\<exists>j. parseInt l = Some j \<and> j \<le> 0))"
  then show "get_messages e (Some u) (Some l) d = Status 422"
    by (auto simp: get_messages_def Let_def)
next
  assume a: "findOne_name u (participants d) \<noteq> None \<and> parseInt l = Some k \<and> 0 < k"
  then show g: "get_messages_part000 (Some u) (Some l) d =
        Messages (take (nat k) (rev (find_visible (JStr u) (messages d))))"
    by (auto simp: get_messages_part000_def Let_def rev_slice_neg findOne_header_def header_def)
  show "length (returned (get_messages_part000 (Some u) (Some l) d)) =
        min (nat k) (length (find_visible (JStr u) (messages d)))"
    unfolding g by (simp add: returned_def)
next
  assume "findOne_name u (participants d) \<noteq> None \<and> parseInt l = Some k \<and> k \<le> 0"
  then show "get_messages_part000 (Some u) (Some l) d = Status 422"
    by (auto simp: get_messages_part000_def Let_def findOne_header_def)
next
  show "parseInt (decimal n) = Some (int n)" by (rule parseInt_decimal)
next
  assume "0 < n \<and> (rest = [] \<or> \<not> is_digit_of 10 (hd rest))"
  then show "parseInt (decimal n @ rest) = Some (int n)"
    by (simp add: parseInt_decimal_prefix)
qed

text \<open>
  C4 as stated fails for a limit that is not numeric but starts with digits:
  \<open>parseInt\<close> reads \<open>2abc\<close> as 2, and the answer is the two newest visible
  messages, not 422.
\<close>

theorem limit_trailing_text_counterexample:
  "get_messages server (Some ''Ana'') (Some ''2abc'') chat_room =
     Messages
       [(6, [(''from'', JStr ''Bob''), (''to'', JStr ''Ana''), (''text'', JStr ''oi Ana''),
             (''type'', JStr ''private_message''), (''time'', JStr ''21:00:06'')]),
        (5, [(''from'', JStr ''Ana''), (''to'', JStr ''Carla''), (''text'', JStr ''segredo''),
             (''type'', JStr ''private_message''), (''time'', JStr ''21:00:05'')])]"
  by code_simp

theorem limit_newest_witness:
  "trim (stripHtml server ''Ana'') = ''Ana'' \<and>
   findOne_name ''Ana'' (participants chat_room) \<noteq> None \<and>
   decimal 2 = ''2'' \<and> parseInt ''2'' = Some 2 \<and>
   map fst (returned (get_messages server (Some ''Ana'') (Some ''2'') chat_room)) = [6, 5] \<and>
   map fst (returned (get_messages_part000 (Some ''Ana'') (Some ''2'') chat_room)) = [6, 5] \<and>
   length (returned (get_messages server (Some ''Ana'') (Some ''9'') chat_room)) = 6 \<and>
   decimal 1 @ ''.5'' = ''1.5'' \<and> parseInt ''1.5'' = Some 1 \<and>
   map fst (returned (get_messages server (Some ''Ana'') (Some ''1.5'') chat_room)) = [6] \<and>
   parseInt [CHR 0xA0, CHR ''2''] = Some 2 \<and>
   map fst (returned (get_messages server (Some ''Ana'') (Some [CHR 0xA0, CHR ''2'']) chat_room)) = [6, 5] \<and>
   parseInt ''abc'' = None \<and>
   get_messages server (Some ''Ana'') (Some ''abc'') chat_room = Status 422 \<and>
   parseInt ''-1'' = Some (- 1) \<and>
   get_messages server (Some ''Ana'') (Some ''-1'') chat_room = Status 422 \<and>
   get_messages_part000 (Some ''Ana'') (Some ''-1'') chat_room = Status 422"
proof -
  have s: "trim (stripHtml server ''Ana'') = ''Ana''" by code_simp
  have h: "findOne_name ''Ana'' (participants chat_room) \<noteq> None" by code_simp
  have d2: "decimal 2 = ''2''" and d15: "decimal 1 @ ''.5'' = ''1.5''" by code_simp+
  have nd: "\<not> is_digit_of 10 (hd ''.5'')" by code_simp
  have p2: "parseInt ''2'' = Some 2" and p9: "parseInt ''9'' = Some 9"
    and pa: "parseInt ''abc'' = None" and pm: "parseInt ''-1'' = Some (- 1)"
    and pn: "parseInt [CHR 0xA0, CHR ''2''] = Some 2"
    by code_simp+
  have v: "map fst (rev (find_visible (JStr ''Ana'') (messages chat_room))) = [6, 5, 4, 3, 2, 1]"
    by code_simp
  then have len: "length (find_visible (JStr ''Ana'') (messages chat_room)) = 6"
    using length_map [of fst "rev (find_visible (JStr ''Ana'') (messages chat_room))"] by simp
  have p15: "parseInt ''1.5'' = Some 1"
    using limit_newest [where e = server and u = "''Ana''" and d = chat_room
        and l = "[]" and k = 0 and n = 1 and rest = "''.5''",
        THEN conjunct2, THEN conjunct2, THEN conjunct2, THEN conjunct2, THEN conjunct2, THEN conjunct2]
      nd d15
    by simp
  have r1: "map fst (returned (get_messages server (Some ''Ana'') (Some ''2'') chat_room)) = [6, 5]"
    using limit_newest [where e = server and u = "''Ana''" and d = chat_room
        and l = "''2''" and k = 2 and n = 0 and rest = "[]",
        THEN conjunct2, THEN conjunct1]
      s h p2 v
    by (simp add: returned_def take_map [symmetric])
  have r2: "map fst (returned (get_messages_part000 (Some ''Ana'') (Some ''2'') chat_room)) = [6, 5]"
    using limit_newest [where e = server and u = "''Ana''" and d = chat_room
        and l = "''2''" and k = 2 and n = 0 and rest = "[]",
        THEN conjunct2, THEN conjunct2, THEN conjunct2, THEN conjunct1]
      h p2 v
    by (simp add: returned_def take_map [symmetric])
  have r3: "length (returned (get_messages server (Some ''Ana'') (Some ''9'') chat_room)) = 6"
    using limit_newest [where e = server and u = "''Ana''" and d = chat_room
        and l = "''9''" and k = 9 and n = 0 and rest = "[]",
        THEN conjunct2, THEN conjunct1]
      s h p9 len
    by (simp add: returned_def)
  have r15: "map fst (returned (get_messages server (Some ''Ana'') (Some ''1.5'') chat_room)) = [6]"
    using limit_newest [where e = server and u = "''Ana''" and d = chat_room
        and l = "''1.5''" and k = 1 and n = 0 and rest = "[]",
        THEN conjunct2, THEN conjunct1]
      s h p15 v
    by (simp add: returned_def take_map [symmetric])
  have rn: "map fst (returned (get_messages server (Some ''Ana'') (Some [CHR 0xA0, CHR ''2'']) chat_room)) = [6, 5]"
    using limit_newest [where e = server and u = "''Ana''" and d = chat_room
        and l = "[CHR 0xA0, CHR ''2'']" and k = 2 and n = 0 and rest = "[]",
        THEN conjunct2, THEN conjunct1]
      s h pn v
    by (simp add: returned_def take_map [symmetric])
  have r4: "get_messages server (Some ''Ana'') (Some ''abc'') chat_room = Status 422"
    using limit_newest [where e = server and u = "''Ana''" and d = chat_room
        and l = "''abc''" and k = 0 and n = 0 and rest = "[]",
        THEN conjunct2, THEN conjunct2, THEN conjunct1]
      s h pa
    by simp
  have r5: "get_messages server (Some ''Ana'') (Some ''-1'') chat_room = Status 422"
    using limit_newest [where e = server and u = "''Ana''" and d = chat_room
        and l = "''-1''" and k = "- 1" and n = 0 and rest = "[]",
        THEN conjunct2, THEN conjunct2, THEN conjunct1]
      s h pm
    by simp
  have r6: "get_messages_part000 (Some ''Ana'') (Some ''-1'') chat_room = Status 422"
    using limit_newest [where e = server and u = "''Ana''" and d = chat_room
        and l = "''-1''" and k = "- 1" and n = 0 and rest = "[]",
        THEN conjunct2, THEN conjunct2, THEN conjunct2, THEN conjunct2, THEN conjunct1]
      h pm
    by simp
  from s h d2 p2 r1 r2 r3 d15 p15 r15 pn rn pa r4 pm r5 r6 show ?thesis by blast
qed

section \<open>The header as sent and the header sanitized\<close>

text \<open>
  C10, as the code has it. In the chat service's reading of messages the participant
  check looks up the sanitized header, and the query compares to and from with the header
  as sent. So for a request whose header differs from its sanitized form, whose sanitized
  header names a participant and whose limit is absent or read as a positive number, the
  request succeeds, and a private message whose to or from is the sanitized name is left
  out of the answer, unless its to is \<open>Todos\<close> or its to or from is the header as sent.
\<close>

theorem raw_header_filter:
  "get_messages e (Some u) None d =
     (if findOne_name (trim (stripHtml e u)) (participants d) = None then Status 409
      else Messages (rev (find_visible (JStr u) (messages d)))) \<and>
   (trim (stripHtml e u) \<noteq> u \<and>
    findOne_name (trim (stripHtml e u)) (participants d) \<noteq> None \<and>
    (limit = None \<or> (\<exists>l k. limit = Some l \<and> parseInt l = Some k \<and> 0 < k)) \<and>
    getprop (snd doc) ''type'' = JStr ''private_message'' \<and>
    (getprop (snd doc) ''to'' = JStr (trim (stripHtml e u)) \<or>
     getprop (snd doc) ''from'' = JStr (trim (stripHtml e u))) \<and>
    getprop (snd doc) ''to'' \<noteq> JStr ''Todos'' \<and>
    getprop (snd doc) ''to'' \<noteq> JStr u \<and> getprop (snd doc) ''from'' \<noteq> JStr u \<longrightarrow>
      (\<exists>ms. get_messages e (Some u) limit d = Messages ms \<and> doc \<notin> set ms))"
proof (intro conjI impI)
  show "get_messages e (Some u) None d =
     (if findOne_name (trim (stripHtml e u)) (participants d) = None then Status 409
      else Messages (rev (find_visible (JStr u) (messages d))))"
    by (auto simp: get_messages_def Let_def)
next
  assume a: "trim (stripHtml e u) \<noteq> u \<and>
    findOne_name (trim (stripHtml e u)) (participants d) \<noteq> None \<and>
    (limit = None \<or> (\<exists>l k. limit = Some l \<and> parseInt l = Some k \<and> 0 < k)) \<and>
    getprop (snd doc) ''type'' = JStr ''private_message'' \<and>
    (getprop (snd doc) ''to'' = JStr (trim (stripHtml e u)) \<or>
     getprop (snd doc) ''from'' = JStr (trim (stripHtml e u))) \<and>
    getprop (snd doc) ''to'' \<noteq> JStr ''Todos'' \<and>
    getprop (snd doc) ''to'' \<noteq> JStr u \<and> getprop (snd doc) ''from'' \<noteq> JStr u"
  then have hidden: "doc \<notin> set (find_visible (JStr u) (messages d))"
    by (simp add: find_visible_def visible_def)
  from a obtain ms where ms: "get_messages e (Some u) limit d = Messages ms"
    by (auto simp: get_messages_def Let_def)
  then have "set ms \<subseteq> set (find_visible (JStr u) (messages d))"
    using returned_get_messages [of e u limit d] by (simp add: returned_def)
  with hidden ms show "\<exists>ms. get_messages e (Some u) limit d = Messages ms \<and> doc \<notin> set ms"
    by blast
qed

text \<open>
  C10 as stated fails for a private message sent to Todos: Ana, asking with the header
  \<open><b>Ana</b>\<close>, is returned her own private message to Todos, whose from is her
  sanitized name.
\<close>

theorem private_to_Todos_raw_header_counterexample:
  "trim (stripHtml server ''<b>Ana</b>'') = ''Ana'' \<and>
   get_messages server (Some ''<b>Ana</b>'') None whisper_room =
     Messages
       [(2, [(''from'', JStr ''Ana''), (''to'', JStr ''Todos''), (''text'', JStr ''segredo''),
             (''type'', JStr ''private_message''), (''time'', JStr ''21:00:02'')]),
        (1, [(''from'', JStr ''Ana''), (''to'', JStr ''Todos''), (''text'', JStr ''entra na sala...''),
             (''type'', JStr ''status''), (''time'', JStr ''21:00:01'')])] \<and>
   whisper_room =
     snd (post_messages server 2000 (Some ''Ana'')
            [(''to'', JStr ''Todos''), (''text'', JStr ''segredo''), (''type'', JStr ''private_message'')]
       (snd (post_participants server 1000 1000 [(''name'', JStr ''Ana'')] empty_db)))"
  by code_simp

theorem raw_header_filter_witness:
  "trim (stripHtml server ''<b>Ana</b>'') = ''Ana'' \<and>
   findOne_name ''Ana'' (participants chat_room) \<noteq> None \<and>
   map fst (returned (get_messages server (Some ''<b>Ana</b>'') None chat_room)) = [4, 3, 2, 1] \<and>
   (\<exists>ms. get_messages server (Some ''<b>Ana</b>'') (Some ''5'') chat_room = Messages ms \<and>
      (6, [(''from'', JStr ''Bob''), (''to'', JStr ''Ana''), (''text'', JStr ''oi Ana''),
           (''type'', JStr ''private_message''), (''time'', JStr ''21:00:06'')]) \<notin> set ms)"
proof -
  have s: "trim (stripHtml server ''<b>Ana</b>'') = ''Ana''" by code_simp
  have f: "findOne_name ''Ana'' (participants chat_room) \<noteq> None" by code_simp
  have p: "parseInt ''5'' = Some 5" by code_simp
  have v: "map fst (rev (find_visible (JStr ''<b>Ana</b>'') (messages chat_room))) = [4, 3, 2, 1]"
    by code_simp
  have g: "getprop (snd (6 :: nat, [(''from'', JStr ''Bob''), (''to'', JStr ''Ana''), (''text'', JStr ''oi Ana''),
           (''type'', JStr ''private_message''), (''time'', JStr ''21:00:06'')])) ''type'' = JStr ''private_message''"
     "getprop (snd (6 :: nat, [(''from'', JStr ''Bob''), (''to'', JStr ''Ana''), (''text'', JStr ''oi Ana''),
           (''type'', JStr ''private_message''), (''time'', JStr ''21:00:06'')])) ''to'' = JStr ''Ana''"
     "getprop (snd (6 :: nat, [(''from'', JStr ''Bob''), (''to'', JStr ''Ana''), (''text'', JStr ''oi Ana''),
           (''type'', JStr ''private_message''), (''time'', JStr ''21:00:06'')])) ''from'' = JStr ''Bob''"
    by (simp_all add: getprop_def)
  note t = raw_header_filter [where e = server and u = "''<b>Ana</b>''" and d = chat_room]
  have r1: "map fst (returned (get_messages server (Some ''<b>Ana</b>'') None chat_room)) = [4, 3, 2, 1]"
    using t [of None "(0, [])"] s f v by (simp add: returned_def)
  have r2: "\<exists>ms. get_messages server (Some ''<b>Ana</b>'') (Some ''5'') chat_room = Messages ms \<and>
      (6, [(''from'', JStr ''Bob''), (''to'', JStr ''Ana''), (''text'', JStr ''oi Ana''),
           (''type'', JStr ''private_message''), (''time'', JStr ''21:00:06'')]) \<notin> set ms"
    using t [of "Some ''5''" "(6, [(''from'', JStr ''Bob''), (''to'', JStr ''Ana''), (''text'', JStr ''oi Ana''),
           (''type'', JStr ''private_message''), (''time'', JStr ''21:00:06'')])"] s f p g
    by simp
  from s f r1 r2 show ?thesis by blast
qed

section \<open>Posting a message\<close>

lemma keys_set_prop: "fst ` set (set_prop k v ob) = insert k (fst ` set ob)"
  by (induction ob) auto

lemma keys_fold_set_prop:
  "fst ` set (fold (\<lambda>k. set_prop k (f k)) ks t) = set ks \<union> fst ` set t"
  by (induction ks arbitrary: t) (auto simp: keys_set_prop)

lemma keys_assign: "fst ` set (assign t s) = fst ` set s \<union> fst ` set t"
  by (simp add: assign_def keys_fold_set_prop)

lemma known_keys_iff: "known_keys ks ob \<longleftrightarrow> fst ` set ob \<subseteq> set ks"
  by (auto simp: known_keys_def list_all_iff)

lemma getprop_assign_other:
  "k \<noteq> k0 \<Longrightarrow> getprop (assign [(k0, v)] body) k = getprop body k"
  by (simp add: getprop_assign getprop_absent)

lemma getprop_defined:
  "k \<in> fst ` set ob \<Longrightarrow> JUndefined \<notin> snd ` set ob \<Longrightarrow> getprop ob k \<noteq> JUndefined"
proof -
  assume k: "k \<in> fst ` set ob" and u: "JUndefined \<notin> snd ` set ob"
  from k obtain v where v: "map_of ob k = Some v"
    using map_of_eq_None_iff [of ob k] by (cases "map_of ob k") auto
  then have "(k, v) \<in> set ob" by (rule map_of_SomeD)
  then have "v \<in> snd ` set ob" by force
  with u have "v \<noteq> JUndefined" by blast
  with v show ?thesis by (simp add: getprop_def)
qed

text \<open>What the schema of the chat service sees of the body.\<close>

lemma schemaMessage_assign_from:
  assumes "JUndefined \<notin> snd ` set body"
  shows "schemaMessage (assign [(''from'', JStr u)] body) \<longleftrightarrow>
     joi_string_required (getprop body ''to'') \<and>
     joi_string_required (getprop body ''text'') \<and>
     joi_valid_required [JStr ''message'', JStr ''private_message''] (getprop body ''type'') \<and>
     fst ` set body - {''from''} \<subseteq> {''to'', ''text'', ''type''}"
proof -
  have "joi_required (getprop (assign [(''from'', JStr u)] body) ''from'')"
  proof (cases "''from'' \<in> fst ` set body")
    case True
    then show ?thesis
      using getprop_defined [OF True assms] by (simp add: joi_required_def getprop_assign)
  next
    case False
    have "getprop [(''from'', JStr u)] ''from'' = JStr u" by (simp add: getprop_def)
    with False show ?thesis by (simp add: joi_required_def getprop_assign)
  qed
  moreover have "known_keys [''from'', ''to'', ''text'', ''type''] (assign [(''from'', JStr u)] body) \<longleftrightarrow>
      fst ` set body - {''from''} \<subseteq> {''to'', ''text'', ''type''}"
    by (auto simp: known_keys_iff keys_assign)
  ultimately show ?thesis
    by (simp add: schemaMessage_def getprop_assign_other)
qed

text \<open>
  In the chat service, two requests whose bodies differ only in a from property are
  handled alike: same answer, same store. (A parsed JSON body holds no \<open>undefined\<close>.)
\<close>

lemma post_messages_from_irrelevant:
  assumes same: "\<And>k. k \<noteq> ''from'' \<Longrightarrow> getprop b1 k = getprop b2 k"
    and keys: "fst ` set b1 - {''from''} = fst ` set b2 - {''from''}"
    and json: "JUndefined \<notin> snd ` set b1" "JUndefined \<notin> snd ` set b2"
  shows "post_messages e now user b1 d = post_messages e now user b2 d"
proof -
  have "getprop b1 ''to'' = getprop b2 ''to''" "getprop b1 ''text'' = getprop b2 ''text''"
    "getprop b1 ''type'' = getprop b2 ''type''"
    by (simp_all add: same)
  then have p: "sanitizedParams e nm b1 = sanitizedParams e nm b2" for nm
    unfolding sanitizedParams_def by presburger
  have s: "schemaMessage (assign [(''from'', JStr u)] b1) =
      schemaMessage (assign [(''from'', JStr u)] b2)" for u
    by (simp add: schemaMessage_assign_from json same keys)
  show ?thesis
    unfolding post_messages_def Let_def p s by (rule refl)
qed

text \<open>In the chat service the from that is stored is the sanitized header.\<close>

lemma post_messages_stores_author:
  assumes "post_messages e now user body d = (Status 201, d')"
  shows "\<exists>u m. user = Some u \<and> messages d' = messages d @ [(new_id (messages d), m)] \<and>
     getprop m ''from'' = JStr (trim (stripHtml e u)) \<and>
     participants d' = participants d \<and> receitas d' = receitas d"
  using assms
  by (auto simp: post_messages_def Let_def sanitizedParams_def insertOne_def getprop_assign
      split: option.splits if_splits)
     (simp add: getprop_def)

text \<open>
  In the chat service a body whose type is neither of the two listed values, or is
  missing, is answered 422 and nothing is stored.
\<close>

lemma post_messages_type_checked:
  assumes "getprop body ''type'' \<noteq> JStr ''message''"
    and "getprop body ''type'' \<noteq> JStr ''private_message''"
  shows "post_messages e now user body d = (Status 422, d)"
proof -
  have "\<not> schemaMessage (assign [(''from'', JStr u)] body)" for u
    using assms by (simp add: schemaMessage_def getprop_assign_other joi_valid_required_def)
  then show ?thesis
    by (simp add: post_messages_def Let_def split: option.splits)
qed


text \<open>
  In the earlier variant a message answered 201 is stored with the body's from when the
  body has one, and with the body's type whatever it is.
\<close>

lemma post_messages_part000_stores_body:
  assumes "post_messages_part000 e now user body d = (Status 201, d')"
  shows "\<exists>m. messages d' = messages d @ [(new_id (messages d), m)] \<and>
     getprop m ''from'' = (if ''from'' \<in> fst ` set body then getprop body ''from'' else header user) \<and>
     getprop m ''type'' = getprop body ''type''"
proof -
  let ?m = "set_prop ''time'' (JStr (format_HHmmss (utcOffset e) now))
              (assign [(''from'', header user)] body)"
  from assms have "messages d' = messages d @ [(new_id (messages d), ?m)]"
    by (auto simp: post_messages_part000_def Let_def insertOne_def split: option.splits if_splits)
  moreover have "getprop [(''from'', header user)] ''from'' = header user"
    by (simp add: getprop_def)
  then have "getprop ?m ''from'' =
      (if ''from'' \<in> fst ` set body then getprop body ''from'' else header user)"
    by (simp add: getprop_set_prop getprop_assign)
  moreover have "getprop ?m ''type'' = getprop body ''type''"
    by (simp add: getprop_set_prop getprop_assign_other)
  ultimately show ?thesis by blast
qed

text \<open>
  C2 fails in the earlier variant. Ana posts with a from property in the body: the message
  is stored with the body's from, Mallory. The same request without that property is
  stored with from Ana. The stored object is built as \<open>{ from: user, ...req.body, time }\<close>,
  so the body's from comes last and wins.
\<close>

theorem spoofed_from_part000:
  "post_messages_part000 server 5000 (Some ''Ana'')
       [(''to'', JStr ''Todos''), (''text'', JStr ''oi''), (''type'', JStr ''message''),
        (''from'', JStr ''Mallory'')] ana_room =
     (Status 201,
      \<lparr>participants = [\<lparr>name = ''Ana'', lastStatus = 1000\<rparr>],
       messages =
         [(1, [(''from'', JStr ''Ana''), (''to'', JStr ''Todos''), (''text'', JStr ''entra na sala...''),
               (''type'', JStr ''status''), (''time'', JStr ''21:00:01'')]),
          (2, [(''from'', JStr ''Mallory''), (''to'', JStr ''Todos''), (''text'', JStr ''oi''),
               (''type'', JStr ''message''), (''time'', JStr ''21:00:05'')])],
       receitas = []\<rparr>) \<and>
   post_messages_part000 server 5000 (Some ''Ana'')
       [(''to'', JStr ''Todos''), (''text'', JStr ''oi''), (''type'', JStr ''message'')] ana_room =
     (Status 201,
      \<lparr>participants = [\<lparr>name = ''Ana'', lastStatus = 1000\<rparr>],
       messages =
         [(1, [(''from'', JStr ''Ana''), (''to'', JStr ''Todos''), (''text'', JStr ''entra na sala...''),
               (''type'', JStr ''status''), (''time'', JStr ''21:00:01'')]),
          (2, [(''from'', JStr ''Ana''), (''to'', JStr ''Todos''), (''text'', JStr ''oi''),
               (''type'', JStr ''message''), (''time'', JStr ''21:00:05'')])],
       receitas = []\<rparr>)"
  by code_simp


text \<open>
  C7 fails in the earlier variant, whose schema says \<open>Joi.allow\<close> where the chat
  service says \<open>Joi.valid(...).required()\<close>: a message of type status is stored and
  answered 201, and so is a message with no type. The chat service answers the first
  request with 422 and stores nothing.
\<close>

theorem unlisted_type_part000:
  "post_messages_part000 server 5000 (Some ''Ana'')
       [(''to'', JStr ''Todos''), (''text'', JStr ''sai da sala...''), (''type'', JStr ''status'')]
       ana_room =
     (Status 201,
      \<lparr>participants = [\<lparr>name = ''Ana'', lastStatus = 1000\<rparr>],
       messages =
         [(1, [(''from'', JStr ''Ana''), (''to'', JStr ''Todos''), (''text'', JStr ''entra na sala...''),
               (''type'', JStr ''status''), (''time'', JStr ''21:00:01'')]),
          (2, [(''from'', JStr ''Ana''), (''to'', JStr ''Todos''), (''text'', JStr ''sai da sala...''),
               (''type'', JStr ''status''), (''time'', JStr ''21:00:05'')])],
       receitas = []\<rparr>) \<and>
   fst (post_messages_part000 server 5000 (Some ''Ana'')
       [(''to'', JStr ''Todos''), (''text'', JStr ''oi'')] ana_room) = Status 201 \<and>
   post_messages server 5000 (Some ''Ana'')
       [(''to'', JStr ''Todos''), (''text'', JStr ''sai da sala...''), (''type'', JStr ''status'')]
       ana_room = (Status 422, ana_room)"
  by code_simp

section \<open>Joining: the name that is stored\<close>

text \<open>What \<open>trim\<close> returns neither starts nor ends with white space.\<close>

lemma trim_outer:
  assumes "trim s \<noteq> []"
  shows "\<not> is_ws (hd (trim s)) \<and> \<not> is_ws (last (trim s))"
proof -
  let ?t = "dropWhile is_ws s"
  let ?r = "dropWhile is_ws (rev ?t)"
  have r: "?r \<noteq> []" using assms by (simp add: trim_def)
  have t: "?t \<noteq> []"
  proof
    assume "?t = []"
    then have "?r = []" by (simp only: rev.simps dropWhile.simps)
    with r show False ..
  qed
  have "last (trim s) = hd ?r" using r by (simp add: trim_def last_rev)
  moreover have "\<not> is_ws (hd ?r)" using r by (rule hd_dropWhile)
  moreover have "hd (trim s) = last ?r" using r by (simp add: trim_def hd_rev)
  moreover have "last ?r = last (rev ?t)"
    using r by (metis last_appendR takeWhile_dropWhile_id)
  moreover have "last (rev ?t) = hd ?t" using t by (simp add: last_rev)
  moreover have "\<not> is_ws (hd ?t)" using t by (rule hd_dropWhile)
  ultimately show ?thesis by simp
qed

text \<open>
  C6, as the code has it. A join answered 201 by the chat service appends one participant,
  whose name is the request's name stripped and trimmed, and one status message from that
  name to Todos; with a stripper that turns \<open><b>Ana</b>\<close> into \<open>Ana\<close>, joining
  as \<open><b>Ana</b>\<close> stores the name \<open>Ana\<close>. A join answered 201 by the earlier
  variant stores the request's name as sent, in the participant and in the message.
\<close>

theorem join_stores_sanitized:
  "(post_participants e t1 t2 body d = (Status 201, d') \<longrightarrow>
      (\<exists>raw. getprop body ''name'' = JStr raw \<and>
         participants d' = participants d @ [\<lparr>name = trim (stripHtml e raw), lastStatus = t1\<rparr>] \<and>
         messages d' =
           messages d @
           [(new_id (messages d),
             [(''from'', JStr (trim (stripHtml e raw))), (''to'', JStr ''Todos''),
              (''text'', JStr ''entra na sala...''), (''type'', JStr ''status''),
              (''time'', JStr (format_HHmmss (utcOffset e) t2))])] \<and>
         receitas d' = receitas d)) \<and>
   (stripHtml e ''<b>Ana</b>'' = ''Ana'' \<and> findOne_name ''Ana'' (participants d) = None \<longrightarrow>
      fst (post_participants e t1 t2 [(''name'', JStr ''<b>Ana</b>'')] d) = Status 201 \<and>
      participants (snd (post_participants e t1 t2 [(''name'', JStr ''<b>Ana</b>'')] d)) =
        participants d @ [\<lparr>name = ''Ana'', lastStatus = t1\<rparr>]) \<and>
   (post_participants_part000 e t1 t2 body d = (Status 201, d') \<longrightarrow>
      (\<exists>raw. getprop body ''name'' = JStr raw \<and>
         participants d' = participants d @ [\<lparr>name = raw, lastStatus = t1\<rparr>] \<and>
         messages d' =
           messages d @
           [(new_id (messages d),
             [(''from'', JStr raw), (''to'', JStr ''Todos''),
              (''text'', JStr ''entra na sala...''), (''type'', JStr ''status''),
              (''time'', JStr (format_HHmmss (utcOffset e) t2))])] \<and>
         receitas d' = receitas d))"
proof (intro conjI impI)
  assume a: "post_participants e t1 t2 body d = (Status 201, d')"
  then have "schemaParticipant body"
    by (auto simp: post_participants_def split: if_splits)
  then obtain raw where raw: "getprop body ''name'' = JStr raw"
    using schemaParticipant_string by blast
  with a show "\<exists>raw. getprop body ''name'' = JStr raw \<and>
         participants d' = participants d @ [\<lparr>name = trim (stripHtml e raw), lastStatus = t1\<rparr>] \<and>
         messages d' =
           messages d @
           [(new_id (messages d),
             [(''from'', JStr (trim (stripHtml e raw))), (''to'', JStr ''Todos''),
              (''text'', JStr ''entra na sala...''), (''type'', JStr ''status''),
              (''time'', JStr (format_HHmmss (utcOffset e) t2))])] \<and>
         receitas d' = receitas d"
    by (auto simp: post_participants_def sanitize_def Let_def insertOne_def
        split: if_splits option.splits)
next
  assume a: "stripHtml e ''<b>Ana</b>'' = ''Ana'' \<and> findOne_name ''Ana'' (participants d) = None"
  have t: "trim ''Ana'' = ''Ana''" by (simp add: trim_def is_ws_def)
  have v: "schemaParticipant [(''name'', JStr ''<b>Ana</b>'')]"
    by (simp add: schemaParticipant_def joi_string_required_def known_keys_def getprop_def)
  have g: "getprop [(''name'', JStr ''<b>Ana</b>'')] ''name'' = JStr ''<b>Ana</b>''"
    by (simp add: getprop_def)
  from a t v g show "fst (post_participants e t1 t2 [(''name'', JStr ''<b>Ana</b>'')] d) = Status 201"
    by (simp add: post_participants_def sanitize_def Let_def)
  from a t v g show "participants (snd (post_participants e t1 t2 [(''name'', JStr ''<b>Ana</b>'')] d)) =
        participants d @ [\<lparr>name = ''Ana'', lastStatus = t1\<rparr>]"
    by (simp add: post_participants_def sanitize_def Let_def)
next
  assume a: "post_participants_part000 e t1 t2 body d = (Status 201, d')"
  then have "schemaParticipant body"
    by (auto simp: post_participants_part000_def split: if_splits)
  then obtain raw where raw: "getprop body ''name'' = JStr raw"
    using schemaParticipant_string by blast
  with a show "\<exists>raw. getprop body ''name'' = JStr raw \<and>
         participants d' = participants d @ [\<lparr>name = raw, lastStatus = t1\<rparr>] \<and>
         messages d' =
           messages d @
           [(new_id (messages d),
             [(''from'', JStr raw), (''to'', JStr ''Todos''),
              (''text'', JStr ''entra na sala...''), (''type'', JStr ''status''),
              (''time'', JStr (format_HHmmss (utcOffset e) t2))])] \<and>
         receitas d' = receitas d"
    by (auto simp: post_participants_part000_def Let_def insertOne_def
        split: if_splits option.splits)
qed

text \<open>
  C6 as stated fails in the earlier variant, which calls no stripper: joining as
  \<open><b>Ana</b>\<close> stores that very text as the name.
\<close>

theorem join_unsanitized_part000_counterexample:
  "trim (stripHtml server ''<b>Ana</b>'') = ''Ana'' \<and>
   post_participants_part000 server 1000 1001 [(''name'', JStr ''<b>Ana</b>'')] empty_db =
     (Status 201,
      \<lparr>participants = [\<lparr>name = ''<b>Ana</b>'', lastStatus = 1000\<rparr>],
       messages =
         [(1, [(''from'', JStr ''<b>Ana</b>''), (''to'', JStr ''Todos''),
               (''text'', JStr ''entra na sala...''), (''type'', JStr ''status''),
               (''time'', JStr ''21:00:01'')])],
       receitas = []\<rparr>)"
  by code_simp

theorem join_stores_sanitized_witness:
  "stripHtml server ''<b>Ana</b>'' = ''Ana'' \<and>
   findOne_name ''Ana'' (participants empty_db) = None \<and>
   post_participants server 1000 1001 [(''name'', JStr '' <b>Ana</b> '')] empty_db =
     (Status 201,
      \<lparr>participants = [\<lparr>name = ''Ana'', lastStatus = 1000\<rparr>],
       messages =
         [(1, [(''from'', JStr ''Ana''), (''to'', JStr ''Todos''),
               (''text'', JStr ''entra na sala...''), (''type'', JStr ''status''),
               (''time'', JStr ''21:00:01'')])],
       receitas = []\<rparr>) \<and>
   fst (post_participants server 1000 1001 [(''name'', JStr ''<b>Ana</b>'')] empty_db) = Status 201 \<and>
   participants (snd (post_participants server 1000 1001 [(''name'', JStr ''<b>Ana</b>'')] empty_db)) =
     [\<lparr>name = ''Ana'', lastStatus = 1000\<rparr>] \<and>
   fst (post_participants_part000 server 1000 1001 [(''name'', JStr ''Ana'')] empty_db) = Status 201 \<and>
   participants (snd (post_participants_part000 server 1000 1001 [(''name'', JStr ''Ana'')] empty_db)) =
     [\<lparr>name = ''Ana'', lastStatus = 1000\<rparr>]"
proof -
  have s: "stripHtml server ''<b>Ana</b>'' = ''Ana''" by code_simp
  have f: "findOne_name ''Ana'' (participants empty_db) = None" by code_simp
  have e0: "participants empty_db = []" by (simp add: empty_db_def)
  have a: "post_participants server 1000 1001 [(''name'', JStr '' <b>Ana</b> '')] empty_db =
     (Status 201,
      \<lparr>participants = [\<lparr>name = ''Ana'', lastStatus = 1000\<rparr>],
       messages =
         [(1, [(''from'', JStr ''Ana''), (''to'', JStr ''Todos''),
               (''text'', JStr ''entra na sala...''), (''type'', JStr ''status''),
               (''time'', JStr ''21:00:01'')])],
       receitas = []\<rparr>)"
    by code_simp
  have b: "post_participants_part000 server 1000 1001 [(''name'', JStr ''Ana'')] empty_db =
     (Status 201, snd (post_participants_part000 server 1000 1001 [(''name'', JStr ''Ana'')] empty_db))"
    by code_simp
  have g: "getprop [(''name'', JStr ''Ana'')] ''name'' = JStr ''Ana''"
    by (simp add: getprop_def)
  note t = join_stores_sanitized [where e = server and d = empty_db and ?t1.0 = 1000 and ?t2.0 = 1001]
  have r1: "fst (post_participants server 1000 1001 [(''name'', JStr ''<b>Ana</b>'')] empty_db) = Status 201"
    and r2: "participants (snd (post_participants server 1000 1001 [(''name'', JStr ''<b>Ana</b>'')] empty_db)) =
     [\<lparr>name = ''Ana'', lastStatus = 1000\<rparr>]"
    using t [of "[]" empty_db] s f e0 by simp_all
  have r3: "participants (snd (post_participants_part000 server 1000 1001 [(''name'', JStr ''Ana'')] empty_db)) =
     [\<lparr>name = ''Ana'', lastStatus = 1000\<rparr>]"
    using t [of "[(''name'', JStr ''Ana'')]"
        "snd (post_participants_part000 server 1000 1001 [(''name'', JStr ''Ana'')] empty_db)"] b g e0
    by auto
  have r4: "fst (post_participants_part000 server 1000 1001 [(''name'', JStr ''Ana'')] empty_db) = Status 201"
    by code_simp
  from s f a r1 r2 r4 r3 show ?thesis by blast
qed

section \<open>Editing a message\<close>

lemma findOne_id_updateOne_set:
  "findOne_id j (updateOne_set i upd c) =
     (if j = i then map_option (\<lambda>m. assign m upd) (findOne_id i c) else findOne_id j c)"
  by (induction c) (auto simp: findOne_id_def)

lemma ids_updateOne_set: "map fst (updateOne_set i upd c) = map fst c"
  by (induction c) auto

lemma sanitizedParams_props:
  assumes "sanitizedParams e nm body = Some params"
  shows "\<exists>to' text' type'.
     sanitize e (getprop body ''to'') = Some to' \<and>
     sanitize e (getprop body ''text'') = Some text' \<and>
     sanitize e (getprop body ''type'') = Some type' \<and>
     params = [(''from'', JStr nm), (''to'', JStr to'), (''text'', JStr text'), (''type'', JStr type')]"
  using assms by (auto simp: sanitizedParams_def split: option.splits)

text \<open>A request that is not answered 200 leaves the store as it was.\<close>

lemma put_messages_unchanged:
  "put_messages e user ident body d = (r, d') \<Longrightarrow> r \<noteq> Status 200 \<Longrightarrow> d' = d"
  by (auto simp: put_messages_def Let_def split: option.splits if_splits)

text \<open>
  The requester whose header is not the message's from is answered 401, once the
  participant check, the schema and the lookup of the message have passed.
\<close>

lemma put_messages_not_owner:
  assumes "findOne_name (trim (stripHtml e u)) (participants d) \<noteq> None"
    and "schemaMessage (assign [(''from'', JStr (trim (stripHtml e u)))] body)"
    and "ObjectId e ident = Some i" and "findOne_id i (messages d) = Some m"
    and "getprop m ''from'' \<noteq> JStr u"
  shows "put_messages e (Some u) ident body d = (Status 401, d)"
proof -
  have b: "joi_string_required (getprop body ''to'')" "joi_string_required (getprop body ''text'')"
    "joi_valid_required [JStr ''message'', JStr ''private_message''] (getprop body ''type'')"
    using assms(2) by (simp_all add: schemaMessage_def getprop_assign_other)
  then have "sanitizedParams e (trim (stripHtml e u)) body \<noteq> None"
    by (auto simp: sanitizedParams_def sanitize_def joi_string_required_def joi_valid_required_def
        split: jsval.splits)
  with assms show ?thesis
    by (auto simp: put_messages_def Let_def)
qed

lemma put_messages_ok:
  assumes "put_messages e (Some u) ident body d = (Status 200, d')"
  shows "\<exists>params i m.
     sanitizedParams e (trim (stripHtml e u)) body = Some params \<and>
     ObjectId e ident = Some i \<and> findOne_id i (messages d) = Some m \<and>
     getprop m ''from'' = JStr u \<and>
     d' = d\<lparr>messages := updateOne_set i params (messages d)\<rparr>"
  using assms
  by (simp add: put_messages_def Let_def split: option.splits if_splits)

text \<open>
  What a 200 does: the message's from was the header as sent; to, text and type become
  the sanitized values of the body, from becomes the sanitized header, every other
  property and every other message stays.
\<close>

lemma put_messages_frame:
  assumes "put_messages e (Some u) ident body d = (Status 200, d')"
  shows "\<exists>i m m' to' text' type'.
     ObjectId e ident = Some i \<and> findOne_id i (messages d) = Some m \<and>
     getprop m ''from'' = JStr u \<and>
     findOne_id i (messages d') = Some m' \<and>
     sanitize e (getprop body ''to'') = Some to' \<and> getprop m' ''to'' = JStr to' \<and>
     sanitize e (getprop body ''text'') = Some text' \<and> getprop m' ''text'' = JStr text' \<and>
     sanitize e (getprop body ''type'') = Some type' \<and> getprop m' ''type'' = JStr type' \<and>
     getprop m' ''from'' = JStr (trim (stripHtml e u)) \<and>
     (\<forall>k. k \<notin> {''from'', ''to'', ''text'', ''type''} \<longrightarrow> getprop m' k = getprop m k) \<and>
     (\<forall>j. j \<noteq> i \<longrightarrow> findOne_id j (messages d') = findOne_id j (messages d)) \<and>
     map fst (messages d') = map fst (messages d) \<and>
     participants d' = participants d \<and> receitas d' = receitas d"
proof -
  let ?nm = "trim (stripHtml e u)"
  from put_messages_ok [OF assms] obtain params i m where
    p: "sanitizedParams e ?nm body = Some params" and i: "ObjectId e ident = Some i"
    and m: "findOne_id i (messages d) = Some m" and own: "getprop m ''from'' = JStr u"
    and d': "d' = d\<lparr>messages := updateOne_set i params (messages d)\<rparr>"
    by blast
  from sanitizedParams_props [OF p] obtain to' text' type' where
    s: "sanitize e (getprop body ''to'') = Some to'"
      "sanitize e (getprop body ''text'') = Some text'"
      "sanitize e (getprop body ''type'') = Some type'"
    and params: "params = [(''from'', JStr ?nm), (''to'', JStr to'), (''text'', JStr text'), (''type'', JStr type')]"
    by blast
  let ?m' = "assign m params"
  have m': "findOne_id i (messages d') = Some ?m'"
    by (simp add: d' findOne_id_updateOne_set m)
  have keys: "fst ` set params = {''from'', ''to'', ''text'', ''type''}"
    by (simp add: params)
  have pg: "getprop params ''to'' = JStr to'" "getprop params ''text'' = JStr text'"
    "getprop params ''type'' = JStr type'" "getprop params ''from'' = JStr ?nm"
    by (simp_all add: params getprop_def)
  have g: "getprop ?m' ''to'' = JStr to'" "getprop ?m' ''text'' = JStr text'"
    "getprop ?m' ''type'' = JStr type'" "getprop ?m' ''from'' = JStr ?nm"
    by (simp_all add: getprop_assign keys pg)
  have other: "\<forall>k. k \<notin> {''from'', ''to'', ''text'', ''type''} \<longrightarrow> getprop ?m' k = getprop m k"
    by (simp add: getprop_assign keys)
  have rest: "\<forall>j. j \<noteq> i \<longrightarrow> findOne_id j (messages d') = findOne_id j (messages d)"
    by (simp add: d' findOne_id_updateOne_set)
  have ids: "map fst (messages d') = map fst (messages d)"
    by (simp add: d' ids_updateOne_set)
  have frame: "participants d' = participants d" "receitas d' = receitas d"
    by (simp_all add: d')
  show ?thesis
    using i m own m' s(1) g(1) s(2) g(2) s(3) g(3) g(4) other rest ids frame
    by (intro exI conjI) assumption+
qed

text \<open>With a header that is its own sanitized form, a 200 leaves from as it was.\<close>

lemma put_messages_from_kept:
  assumes "put_messages e (Some u) ident body d = (Status 200, d')"
    and "trim (stripHtml e u) = u" and "ObjectId e ident = Some i"
  shows "\<exists>m m'. findOne_id i (messages d) = Some m \<and> findOne_id i (messages d') = Some m' \<and>
     getprop m' ''from'' = getprop m ''from''"
proof -
  from put_messages_ok [OF assms(1)] obtain params m where
    p: "sanitizedParams e (trim (stripHtml e u)) body = Some params"
    and m: "findOne_id i (messages d) = Some m" and own: "getprop m ''from'' = JStr u"
    and d': "d' = d\<lparr>messages := updateOne_set i params (messages d)\<rparr>"
    using assms(3) by auto
  from sanitizedParams_props [OF p] have "getprop params ''from'' = JStr u"
    using assms(2) by (auto simp: getprop_def)
  moreover from sanitizedParams_props [OF p] have "''from'' \<in> fst ` set params"
    by auto
  ultimately have "getprop (assign m params) ''from'' = getprop m ''from''"
    using own by (simp add: getprop_assign)
  moreover have "findOne_id i (messages d') = Some (assign m params)"
    by (simp add: d' findOne_id_updateOne_set m)
  ultimately show ?thesis using m by simp
qed

text \<open>
  C8 fails when the header is not its own sanitized form. Message 3 was sent by the
  participant whose name is the text \<open><b>Ana</b>\<close>. A request to edit it with the
  header \<open><b>Ana</b>\<close> passes the participant check as Ana, passes the ownership test
  on the header as sent, is answered 200, and rewrites the message's from to Ana. The
  deletion handler compares from with the sanitized header and answers the same requester
  with 401. The state is the one the three requests below produce.
\<close>

theorem put_rewrites_from:
  "findOne_id 3 (messages mixed_room) =
     Some [(''from'', JStr ''<b>Ana</b>''), (''to'', JStr ''Todos''), (''text'', JStr ''oi''),
           (''type'', JStr ''message''), (''time'', JStr ''21:00:03'')] \<and>
   put_messages server (Some ''<b>Ana</b>'') ''000000000000000000000003''
       [(''to'', JStr ''Todos''), (''text'', JStr ''editado''), (''type'', JStr ''message'')]
       mixed_room =
     (Status 200,
      \<lparr>participants =
         [\<lparr>name = ''Ana'', lastStatus = 1000\<rparr>, \<lparr>name = ''<b>Ana</b>'', lastStatus = 2000\<rparr>],
       messages =
         [(1, [(''from'', JStr ''Ana''), (''to'', JStr ''Todos''), (''text'', JStr ''entra na sala...''),
               (''type'', JStr ''status''), (''time'', JStr ''21:00:01'')]),
          (2, [(''from'', JStr ''<b>Ana</b>''), (''to'', JStr ''Todos''), (''text'', JStr ''entra na sala...''),
               (''type'', JStr ''status''), (''time'', JStr ''21:00:02'')]),
          (3, [(''from'', JStr ''Ana''), (''to'', JStr ''Todos''), (''text'', JStr ''editado''),
               (''type'', JStr ''message''), (''time'', JStr ''21:00:03'')])],
       receitas = []\<rparr>) \<and>
   delete_messages server (Some ''<b>Ana</b>'') ''000000000000000000000003'' mixed_room =
     (Status 401, mixed_room) \<and>
   mixed_room =
     snd (post_messages_part000 server 3000 (Some ''<b>Ana</b>'')
            [(''to'', JStr ''Todos''), (''text'', JStr ''oi''), (''type'', JStr ''message'')]
       (snd (post_participants_part000 server 2000 2000 [(''name'', JStr ''<b>Ana</b>'')]
         (snd (post_participants server 1000 1000 [(''name'', JStr ''Ana'')] empty_db)))))"
  by code_simp

end
